theory Spec2Isabelle
  imports Main
begin

section \<open>Data model\<close>

text \<open>
  The relay is a single-threaded event handler program (Node.js): every callback of
  \<^verbatim>\<open>pty.ts\<close> and \<^verbatim>\<open>web-server.ts\<close> runs to completion before the next one
  starts. The module-level variables of both files are the fields of one record, every
  callback is a function from state to state, and the environment (the PTY child, the
  client sockets, the gateway sockets, the timer queue) drives the program through events.
\<close>

type_synonym ws = nat \<comment> \<open>identity of a client WebSocket accepted by the server\<close>
type_synonym handle = nat \<comment> \<open>identity of an outbound WebSocket to the gateway\<close>

datatype readyState = CONNECTING | OPEN | CLOSING | CLOSED

text \<open>Messages the relay sends to a client (\<^verbatim>\<open>ws.send(JSON.stringify(...))\<close>).\<close>

datatype asrData =
    AsrReady
  | Partial "string option"
  | Completed "string option"
  | CorrectionResult "string option" "string option"
  | AsrError "string option"
  | Opaque string

datatype serverMsg =
    History "string list"
  | Output string
  | Exit int
  | AsrResponse asrData
  | ClaudeResponse "string option" "bool option" "string option" "string option"
    \<comment> \<open>the fields \<^verbatim>\<open>text\<close>, \<^verbatim>\<open>done\<close>, \<^verbatim>\<open>error\<close>, \<^verbatim>\<open>fallback\<close> of \<^verbatim>\<open>data\<close>\<close>

text \<open>Messages the relay sends to the gateway.\<close>

datatype backendMsg =
    StartAsr string string
  | ContextUpdate string
  | AudioData "string option"
  | StopAsr
  | CorrectText "string option" "string option"

text \<open>
  A parsed client message. The handler reads the fields ad hoc; a field that is absent is
  \<open>None\<close>. Numbers are restricted to integers and text fields to strings.
\<close>

record msg =
  msg_type :: "string option"
  msg_data :: "string option"
  msg_cols :: "int option"
  msg_rows :: "int option"
  msg_language :: "string option"
  msg_model :: "string option"
  msg_context :: "string option"
  msg_audio :: "string option"
  msg_transcript :: "string option"

text \<open>
  The payload of a client frame as \<^verbatim>\<open>JSON.parse\<close> sees it: text that is not JSON
  (the parser throws), the JSON value \<^verbatim>\<open>null\<close> (reading \<^verbatim>\<open>msg.type\<close> throws), or any
  other value (a value that is not an object has every field absent).
\<close>

datatype wsData = NotJSON | JSONNull | JSONValue msg

text \<open>What the gateway sends back, by the \<^verbatim>\<open>type\<close> the handlers switch on.\<close>

datatype gatewayResponse =
    GConnected
  | GAsrConnected
  | GAsrDisconnected
  | GPartialResult "string option"
  | GFinalResult "string option"
  | GCorrectionResult "string option" "string option"
  | GError "string option"
  | GPong
  | GOther string

text \<open>
  The payload of a gateway frame: \<open>GNotJSON\<close> stands for a payload on which the
  listener throws (text that is not JSON, or the JSON value \<^verbatim>\<open>null\<close>).
\<close>

datatype gatewayData = GNotJSON | GParsed gatewayResponse

record clientInfo =
  cols :: int
  rows :: int
  clientId :: nat
  asrWs :: "handle option"
  sessionReady :: bool
  audioChunkCount :: nat
  terminalContext :: string

datatype sockKind = Gateway | Correction

text \<open>
  An outbound socket with what its listeners captured: the client connection it was
  opened for and the client message that opened it.
\<close>

record backendSock =
  bKind :: sockKind
  bOwner :: ws
  bMsg :: msg
  bReady :: readyState
  bSent :: "backendMsg list"
  bCloseCalls :: "(nat \<times> string) option list"

record ptyProc =
  pcols :: int
  prows :: int
  pinput :: "string list"

text \<open>
  The functions that are registered as the PTY's exit callback: the broadcast of
  \<^verbatim>\<open>startWebServer\<close> and the callback of \<^verbatim>\<open>startSession\<close>, which closes over the
  command of the session (the words joined by spaces, if a command was given).
\<close>

datatype exitListener = WebServerExit | SessionExit "string option"

record relay =
  \<comment> \<open>\<^verbatim>\<open>pty.ts\<close>\<close>
  ptyProcess :: "ptyProc option"
  dataCallback :: bool
  exitCallback :: "exitListener option"
  localCols :: int
  localRows :: int
  stdout :: "string list"
  \<comment> \<open>\<^verbatim>\<open>relay.ts\<close>\<close>
  webCols :: int
  webRows :: int
  \<comment> \<open>\<^verbatim>\<open>web-server.ts\<close>\<close>
  connectedClients :: "ws list"
  heap :: "ws \<Rightarrow> clientInfo"
  outputBuffer :: "string list"
  clientIdCounter :: nat
  debugAsrEnabled :: bool
  \<comment> \<open>the environment\<close>
  nextWs :: ws
  wsReadyState :: "ws \<Rightarrow> readyState"
  wsSent :: "ws \<Rightarrow> serverMsg list"
  nextHandle :: handle
  sockets :: "handle \<Rightarrow> backendSock"
  timers :: "(nat \<times> ws) list"
  console :: "string list"
  crashed :: bool
  exited :: "int option"

text \<open>
  \<open>connectedClients\<close> holds the keys of the \<^verbatim>\<open>Map\<close> in insertion order; its values are
  the \<open>clientInfo\<close> objects in \<open>heap\<close>, which the listeners of a connection keep
  referring to after the key is deleted. \<open>exitCallback\<close> is the single slot of
  \<^verbatim>\<open>pty.ts\<close>: a registration replaces what was registered before. \<open>crashed\<close> says
  that the process has ended, by an exception nobody caught or by \<^verbatim>\<open>process.exit\<close>,
  whose code is then in \<open>exited\<close>.
\<close>

section \<open>pty.ts\<close>

definition getLocalSize :: "relay \<Rightarrow> int \<times> int" where
  "getLocalSize st = (localCols st, localRows st)"

definition writeToPTY :: "string \<Rightarrow> relay \<Rightarrow> relay" where
  "writeToPTY d st =
     (case ptyProcess st of
        None \<Rightarrow> st
      | Some p \<Rightarrow> st\<lparr>ptyProcess := Some (p\<lparr>pinput := pinput p @ [d]\<rparr>)\<rparr>)"

definition resizePTY :: "int \<Rightarrow> int \<Rightarrow> relay \<Rightarrow> relay" where
  "resizePTY c r st =
     (case ptyProcess st of
        None \<Rightarrow> st
      | Some p \<Rightarrow> st\<lparr>ptyProcess := Some (p\<lparr>pcols := c, prows := r\<rparr>)\<rparr>)"

definition isPTYRunning :: "relay \<Rightarrow> bool" where
  "isPTYRunning st = (ptyProcess st \<noteq> None)"

text \<open>\<^verbatim>\<open>a || b\<close> on an optional number: \<^verbatim>\<open>undefined\<close> and 0 are falsy.\<close>

fun orNum :: "int option \<Rightarrow> int option \<Rightarrow> int option" where
  "orNum None b = b"
| "orNum (Some a) b = (if a = 0 then b else Some a)"

fun orDefault :: "int option \<Rightarrow> int \<Rightarrow> int" where
  "orDefault None d = d"
| "orDefault (Some a) d = (if a = 0 then d else a)"

text \<open>
  \<^verbatim>\<open>spawnPTY\<close>: \<open>optCols\<close>, \<open>optRows\<close> are \<^verbatim>\<open>options.cols\<close>, \<^verbatim>\<open>options.rows\<close>;
  \<open>ttyCols\<close>, \<open>ttyRows\<close> are \<^verbatim>\<open>process.stdout.columns\<close>, \<^verbatim>\<open>process.stdout.rows\<close>.
\<close>

definition spawnPTY :: "int option \<Rightarrow> int option \<Rightarrow> int option \<Rightarrow> int option \<Rightarrow> relay \<Rightarrow> relay" where
  "spawnPTY optCols optRows ttyCols ttyRows st =
     (let lc = orDefault (orNum optCols ttyCols) 80;
          lr = orDefault (orNum optRows ttyRows) 24
      in st\<lparr>localCols := lc, localRows := lr,
            ptyProcess := Some \<lparr>pcols = lc, prows = lr, pinput = []\<rparr>\<rparr>)"

definition killPTY :: "relay \<Rightarrow> relay" where
  "killPTY st = st\<lparr>ptyProcess := None\<rparr>"

section \<open>relay.ts: the reaction to a resize of the local terminal\<close>

definition relay_applyMinSize :: "relay \<Rightarrow> relay" where
  "relay_applyMinSize st =
     (if webCols st = 0 \<or> webRows st = 0 then st
      else let minCols = min (localCols st) (webCols st);
               minRows = min (localRows st) (webRows st)
           in if minCols > 0 \<and> minRows > 0 then resizePTY minCols minRows st else st)"

definition onLocalResize :: "relay \<Rightarrow> relay" where
  "onLocalResize st = relay_applyMinSize st"

text \<open>The \<^verbatim>\<open>'resize'\<close> listener of \<^verbatim>\<open>process.stdout\<close> in \<^verbatim>\<open>spawnPTY\<close>.\<close>

definition stdoutResize :: "int option \<Rightarrow> int option \<Rightarrow> relay \<Rightarrow> relay" where
  "stdoutResize ttyCols ttyRows st =
     (case (ttyCols, ttyRows) of
        (Some c, Some r) \<Rightarrow>
          if c \<noteq> 0 \<and> r \<noteq> 0 then onLocalResize (st\<lparr>localCols := c, localRows := r\<rparr>) else st
      | _ \<Rightarrow> st)"

section \<open>web-server.ts: size reconciliation\<close>

text \<open>The body of the \<^verbatim>\<open>forEach\<close> in \<^verbatim>\<open>calculateMinSize\<close>, over the clients in order.\<close>

fun minOver :: "clientInfo list \<Rightarrow> int \<times> int \<Rightarrow> int \<times> int" where
  "minOver [] acc = acc"
| "minOver (ci # cis) (minCols, minRows) =
     minOver cis
       (if cols ci > 0 \<and> rows ci > 0
        then (min minCols (cols ci), min minRows (rows ci))
        else (minCols, minRows))"

definition calculateMinSize :: "relay \<Rightarrow> int \<times> int" where
  "calculateMinSize st = minOver (map (heap st) (connectedClients st)) (getLocalSize st)"

definition applyMinSize :: "relay \<Rightarrow> relay" where
  "applyMinSize st =
     (if connectedClients st = [] then
        (case getLocalSize st of (c, r) \<Rightarrow> resizePTY c r st)
      else
        (case calculateMinSize st of (c, r) \<Rightarrow>
           if c > 0 \<and> r > 0 then resizePTY c r st else st))"

section \<open>web-server.ts: history buffer and broadcast\<close>

definition MAX_BUFFER_SIZE :: nat where
  "MAX_BUFFER_SIZE = 5000"

text \<open>\<^verbatim>\<open>xs.slice(-n)\<close>: the last \<open>n\<close> elements, all of them when there are fewer.\<close>

definition sliceLast :: "nat \<Rightarrow> 'a list \<Rightarrow> 'a list" where
  "sliceLast n xs = drop (length xs - n) xs"

definition pushChunk :: "string \<Rightarrow> string list \<Rightarrow> string list" where
  "pushChunk d buf =
     (let b = buf @ [d] in if length b > MAX_BUFFER_SIZE then sliceLast 3000 b else b)"

text \<open>
  \<^verbatim>\<open>ws.send\<close> on a client socket: the frame goes out when the socket is open; on a
  socket that is closing or closed nothing is transmitted.
\<close>

definition wsSend :: "ws \<Rightarrow> serverMsg \<Rightarrow> relay \<Rightarrow> relay" where
  "wsSend w m st =
     (if wsReadyState st w = OPEN then st\<lparr>wsSent := (wsSent st)(w := wsSent st w @ [m])\<rparr> else st)"

text \<open>
  \<^verbatim>\<open>connectedClients.forEach((clientInfo, client) => { if (client.readyState === OPEN)
  client.send(msg) })\<close>
\<close>

fun sendAll :: "ws list \<Rightarrow> serverMsg \<Rightarrow> relay \<Rightarrow> relay" where
  "sendAll [] m st = st"
| "sendAll (c # cs) m st =
     sendAll cs m (if wsReadyState st c = OPEN then wsSend c m st else st)"

definition broadcast :: "serverMsg \<Rightarrow> relay \<Rightarrow> relay" where
  "broadcast m st = sendAll (connectedClients st) m st"

text \<open>The callback given to \<^verbatim>\<open>onPTYData\<close>.\<close>

definition webOnPTYData :: "string \<Rightarrow> relay \<Rightarrow> relay" where
  "webOnPTYData d st = broadcast (Output d) (st\<lparr>outputBuffer := pushChunk d (outputBuffer st)\<rparr>)"

text \<open>The callback given to \<^verbatim>\<open>onPTYExit\<close>.\<close>

definition webOnPTYExit :: "int \<Rightarrow> relay \<Rightarrow> relay" where
  "webOnPTYExit code st = broadcast (Exit code) st"

text \<open>\<^verbatim>\<open>onPTYExit\<close> of \<^verbatim>\<open>pty.ts\<close>: the callback given replaces the one held.\<close>

definition onPTYExit :: "exitListener \<Rightarrow> relay \<Rightarrow> relay" where
  "onPTYExit cb st = st\<lparr>exitCallback := Some cb\<rparr>"

text \<open>
  \<^verbatim>\<open>stopWebServer\<close>: \<^verbatim>\<open>close()\<close> is called on every client socket of the server, which
  takes an open socket to the closing state, and the registry, the history buffer and
  the id counter are reset.
\<close>

definition stopWebServer :: "relay \<Rightarrow> relay" where
  "stopWebServer st =
     st\<lparr>wsReadyState :=
          (\<lambda>w. if w < nextWs st \<and> wsReadyState st w = OPEN then CLOSING else wsReadyState st w),
        connectedClients := [], outputBuffer := [], clientIdCounter := 0\<rparr>"

definition processExit :: "int \<Rightarrow> relay \<Rightarrow> relay" where
  "processExit code st = st\<lparr>exited := Some code, crashed := True\<rparr>"

text \<open>
  The session module (\<^verbatim>\<open>startSession\<close>): \<^verbatim>\<open>cleanup\<close>, and the callback it gives to
  \<^verbatim>\<open>onPTYExit\<close> right after \<^verbatim>\<open>spawnPTY\<close>. The tunnel that \<^verbatim>\<open>cleanup\<close> also stops
  is outside the model.
\<close>

definition cleanup :: "relay \<Rightarrow> relay" where
  "cleanup st = processExit 0 (stopWebServer (killPTY st))"

definition sessionOnExit :: "string option \<Rightarrow> int \<Rightarrow> relay \<Rightarrow> relay" where
  "sessionOnExit cmd code st =
     (let st1 = st\<lparr>console := console st @ [[]]\<rparr>;
          line = (case cmd of
                    Some c \<Rightarrow> ''  '' @ c @ '' exited. Session ended.''
                  | None \<Rightarrow> ''  Terminal session ended.'')
      in cleanup (st1\<lparr>console := console st1 @ [line]\<rparr>))"

text \<open>
  The listeners \<^verbatim>\<open>ptyProcess.onData\<close> and \<^verbatim>\<open>ptyProcess.onExit\<close> of \<^verbatim>\<open>pty.ts\<close>. The
  exit listener calls whatever callback the slot holds and then clears \<^verbatim>\<open>ptyProcess\<close>
  (which \<^verbatim>\<open>killPTY\<close> has cleared already when the session's callback ended the
  process).
\<close>

definition ptyOnData :: "string \<Rightarrow> relay \<Rightarrow> relay" where
  "ptyOnData d st =
     (let st1 = st\<lparr>stdout := stdout st @ [d]\<rparr>
      in if dataCallback st1 then webOnPTYData d st1 else st1)"

definition ptyOnExit :: "int \<Rightarrow> relay \<Rightarrow> relay" where
  "ptyOnExit code st =
     (let st1 = (case exitCallback st of
                   None \<Rightarrow> st
                 | Some WebServerExit \<Rightarrow> webOnPTYExit code st
                 | Some (SessionExit cmd) \<Rightarrow> sessionOnExit cmd code st)
      in st1\<lparr>ptyProcess := None\<rparr>)"

section \<open>web-server.ts: logging and truthiness\<close>

definition asrLog :: "string \<Rightarrow> relay \<Rightarrow> relay" where
  "asrLog s st = (if debugAsrEnabled st then st\<lparr>console := console st @ [s]\<rparr> else st)"

definition consoleError :: "string \<Rightarrow> relay \<Rightarrow> relay" where
  "consoleError s st = st\<lparr>console := console st @ [s]\<rparr>"

text \<open>A string is truthy when present and not empty, a number when present and not 0.\<close>

definition truthy :: "string option \<Rightarrow> bool" where
  "truthy s = (case s of None \<Rightarrow> False | Some x \<Rightarrow> x \<noteq> [])"

definition truthyNum :: "int option \<Rightarrow> bool" where
  "truthyNum n = (case n of None \<Rightarrow> False | Some x \<Rightarrow> x \<noteq> 0)"

definition orStr :: "string option \<Rightarrow> string \<Rightarrow> string" where
  "orStr s d = (case s of None \<Rightarrow> d | Some x \<Rightarrow> if x = [] then d else x)"

section \<open>Outbound sockets\<close>

definition newSocket :: "sockKind \<Rightarrow> ws \<Rightarrow> msg \<Rightarrow> relay \<Rightarrow> relay" where
  "newSocket k w m st =
     st\<lparr>sockets := (sockets st)(nextHandle st :=
            \<lparr>bKind = k, bOwner = w, bMsg = m, bReady = CONNECTING, bSent = [], bCloseCalls = []\<rparr>),
        nextHandle := Suc (nextHandle st)\<rparr>"

text \<open>\<^verbatim>\<open>send\<close> on an outbound socket that the caller has found open.\<close>

definition sockSend :: "handle \<Rightarrow> backendMsg \<Rightarrow> relay \<Rightarrow> relay" where
  "sockSend h m st =
     (if bReady (sockets st h) = OPEN
      then st\<lparr>sockets := (sockets st)(h := (sockets st h)\<lparr>bSent := bSent (sockets st h) @ [m]\<rparr>)\<rparr>
      else st)"

text \<open>
  \<^verbatim>\<open>close(code, reason)\<close> on an outbound socket: the call is recorded and the socket
  leaves the connecting or open state; on a closed socket it does nothing. \<open>None\<close> is a
  call without arguments.
\<close>

definition sockClose :: "handle \<Rightarrow> (nat \<times> string) option \<Rightarrow> relay \<Rightarrow> relay" where
  "sockClose h a st =
     (if bReady (sockets st h) = CLOSED then st
      else st\<lparr>sockets := (sockets st)(h := (sockets st h)
                \<lparr>bReady := CLOSING, bCloseCalls := bCloseCalls (sockets st h) @ [a]\<rparr>)\<rparr>)"

definition setInfo :: "ws \<Rightarrow> clientInfo \<Rightarrow> relay \<Rightarrow> relay" where
  "setInfo w ci st = st\<lparr>heap := (heap st)(w := ci)\<rparr>"

section \<open>web-server.ts: the connection listener\<close>

definition onConnection :: "relay \<Rightarrow> relay" where
  "onConnection st =
     (let w = nextWs st;
          n = Suc (clientIdCounter st);
          st1 = st\<lparr>nextWs := Suc w,
                   wsReadyState := (wsReadyState st)(w := OPEN),
                   wsSent := (wsSent st)(w := []),
                   clientIdCounter := n,
                   heap := (heap st)(w := \<lparr>cols = 80, rows = 24, clientId = n, asrWs = None,
                             sessionReady = False, audioChunkCount = 0, terminalContext = []\<rparr>),
                   connectedClients := connectedClients st @ [w]\<rparr>
      in if length (outputBuffer st1) > 0
         then wsSend w (History (outputBuffer st1)) st1
         else st1)"

section \<open>web-server.ts: the message listener\<close>

definition handleInput :: "msg \<Rightarrow> relay \<Rightarrow> relay" where
  "handleInput m st =
     (if msg_type m = Some ''input'' \<and> truthy (msg_data m)
      then (case msg_data m of Some d \<Rightarrow> writeToPTY d st | None \<Rightarrow> st)
      else st)"

definition handleAsrStart :: "ws \<Rightarrow> msg \<Rightarrow> relay \<Rightarrow> relay" where
  "handleAsrStart w m st =
     (if msg_type m = Some ''asr_start'' then
        (let st1 = asrLog ''[ASR] Starting ASR session via Gateway'' st;
             h = nextHandle st1;
             st2 = newSocket Gateway w m st1
         in setInfo w ((heap st2 w)\<lparr>asrWs := Some h, sessionReady := False, audioChunkCount := 0,
                         terminalContext := orStr (msg_context m) []\<rparr>) st2)
      else st)"

definition handleAsrAudio :: "ws \<Rightarrow> msg \<Rightarrow> relay \<Rightarrow> relay" where
  "handleAsrAudio w m st =
     (if msg_type m = Some ''asr_audio'' then
        (case asrWs (heap st w) of
           None \<Rightarrow> st
         | Some h \<Rightarrow>
             if bReady (sockets st h) = OPEN \<and> sessionReady (heap st w) then
               (let st1 = (if audioChunkCount (heap st w) = 0
                           then asrLog ''[ASR] First audio chunk length''
                                  (setInfo w ((heap st w)\<lparr>audioChunkCount := 0\<rparr>) st)
                           else st);
                    st2 = sockSend h (AudioData (msg_audio m)) st1;
                    n = audioChunkCount (heap st2 w);
                    st3 = setInfo w ((heap st2 w)\<lparr>audioChunkCount := Suc n\<rparr>) st2
                in if n < 5 then asrLog ''[ASR] Sent audio chunk to Gateway'' st3 else st3)
             else if \<not> sessionReady (heap st w) then
               asrLog ''[ASR] Buffering audio - session not ready yet'' st
             else st)
      else st)"

definition handleAsrCommit :: "ws \<Rightarrow> msg \<Rightarrow> relay \<Rightarrow> relay" where
  "handleAsrCommit w m st =
     (if msg_type m = Some ''asr_commit'' \<and> asrWs (heap st w) \<noteq> None
      then asrLog ''[ASR] Commit request (gateway handles VAD automatically)'' st
      else st)"

text \<open>The delay given to \<^verbatim>\<open>setTimeout\<close> in the \<^verbatim>\<open>asr_stop\<close> branch, in milliseconds.\<close>

definition STOP_DELAY :: nat where
  "STOP_DELAY = 1000"

definition handleAsrStop :: "ws \<Rightarrow> msg \<Rightarrow> relay \<Rightarrow> relay" where
  "handleAsrStop w m st =
     (if msg_type m = Some ''asr_stop'' then
        (case asrWs (heap st w) of
           None \<Rightarrow> st
         | Some h \<Rightarrow>
             if bReady (sockets st h) = OPEN then
               (let st1 = sockSend h StopAsr st;
                    st2 = asrLog ''[ASR] Sent stop_asr to Gateway'' st1
                in st2\<lparr>timers := timers st2 @ [(STOP_DELAY, w)]\<rparr>)
             else setInfo w ((heap st w)\<lparr>asrWs := None, audioChunkCount := 0\<rparr>) st)
      else st)"

text \<open>The function given to \<^verbatim>\<open>setTimeout\<close> in the \<^verbatim>\<open>asr_stop\<close> branch.\<close>

definition stopTimeout :: "ws \<Rightarrow> relay \<Rightarrow> relay" where
  "stopTimeout w st =
     (case asrWs (heap st w) of
        None \<Rightarrow> st
      | Some h \<Rightarrow>
          (let st1 = sockClose h (Some (1000, ''Recording stopped normally'')) st
           in setInfo w ((heap st1 w)\<lparr>asrWs := None, audioChunkCount := 0\<rparr>) st1))"

definition handleClaudeProcess :: "ws \<Rightarrow> msg \<Rightarrow> relay \<Rightarrow> relay" where
  "handleClaudeProcess w m st =
     (if msg_type m = Some ''claude_process'' then
        (let st1 = asrLog ''[Claude] Processing request via Gateway'' st;
             reuse = (case asrWs (heap st1 w) of
                        None \<Rightarrow> None
                      | Some h \<Rightarrow> if bReady (sockets st1 h) = OPEN then Some h else None)
         in case reuse of
              Some h \<Rightarrow>
                sockSend h (CorrectText (msg_transcript m)
                  (if truthy (msg_context m) then msg_context m
                   else Some (terminalContext (heap st1 w)))) st1
            | None \<Rightarrow> newSocket Correction w m st1)
      else st)"

definition handleResize :: "ws \<Rightarrow> msg \<Rightarrow> relay \<Rightarrow> relay" where
  "handleResize w m st =
     (if msg_type m = Some ''resize'' \<and> truthyNum (msg_cols m) \<and> truthyNum (msg_rows m) then
        (case (msg_cols m, msg_rows m) of
           (Some c, Some r) \<Rightarrow>
             applyMinSize
               (if w \<in> set (connectedClients st)
                then setInfo w ((heap st w)\<lparr>cols := c, rows := r\<rparr>) st
                else st)
         | _ \<Rightarrow> st)
      else st)"

text \<open>The body of the \<^verbatim>\<open>try\<close> after a successful parse: the \<^verbatim>\<open>if\<close>s in source order.\<close>

definition dispatch :: "ws \<Rightarrow> msg \<Rightarrow> relay \<Rightarrow> relay" where
  "dispatch w m st =
     handleResize w m
       (handleClaudeProcess w m
         (handleAsrStop w m
           (handleAsrCommit w m
             (handleAsrAudio w m
               (handleAsrStart w m
                 (handleInput m st))))))"

definition onMessage :: "ws \<Rightarrow> wsData \<Rightarrow> relay \<Rightarrow> relay" where
  "onMessage w d st =
     (case d of
        NotJSON \<Rightarrow> consoleError ''  [WebServer] Invalid message:'' st
      | JSONNull \<Rightarrow> consoleError ''  [WebServer] Invalid message:'' st
      | JSONValue m \<Rightarrow> dispatch w m st)"

section \<open>web-server.ts: the close listener\<close>

definition onClose :: "ws \<Rightarrow> relay \<Rightarrow> relay" where
  "onClose w st =
     (if w \<in> set (connectedClients st) then
        (let st1 = (case asrWs (heap st w) of
                      None \<Rightarrow> st
                    | Some h \<Rightarrow>
                        (let s = sockClose h (Some (1001, ''Client disconnected'')) st
                         in setInfo w ((heap s w)\<lparr>asrWs := None\<rparr>) s));
             st2 = st1\<lparr>connectedClients := removeAll w (connectedClients st1)\<rparr>
         in applyMinSize st2)
      else st)"

section \<open>web-server.ts: the listeners of the outbound sockets\<close>

text \<open>
  The listeners of an outbound socket run outside the \<^verbatim>\<open>try\<close> of the message listener.
  An exception thrown there (reading \<^verbatim>\<open>send\<close> of \<^verbatim>\<open>null\<close>, \<^verbatim>\<open>send\<close> on a socket that
  is still connecting, \<^verbatim>\<open>JSON.parse\<close> of text that is not JSON) is caught by nobody:
  the model records it in \<open>crashed\<close>.
\<close>

definition uncaught :: "relay \<Rightarrow> relay" where
  "uncaught st = st\<lparr>crashed := True\<rparr>"

text \<open>The \<^verbatim>\<open>'open'\<close> listener set in the \<^verbatim>\<open>asr_start\<close> branch.\<close>

definition gatewayOnOpen :: "handle \<Rightarrow> relay \<Rightarrow> relay" where
  "gatewayOnOpen h st =
     (let w = bOwner (sockets st h);
          m = bMsg (sockets st h);
          st1 = asrLog ''[ASR] Connected to ASR Gateway'' st
      in case asrWs (heap st1 w) of
           None \<Rightarrow> uncaught st1
         | Some t \<Rightarrow>
             if bReady (sockets st1 t) = CONNECTING then uncaught st1
             else
               (let st2 = sockSend t (StartAsr (orStr (msg_language m) ''zh'')
                                        (orStr (msg_model m) ''qwen3-asr-flash-realtime'')) st1;
                    st3 = asrLog ''[ASR] Sent start_asr to Gateway'' st2
                in if terminalContext (heap st3 w) \<noteq> []
                   then asrLog ''[ASR] Sent context to Gateway''
                          (sockSend t (ContextUpdate (terminalContext (heap st3 w))) st3)
                   else st3))"

text \<open>The \<^verbatim>\<open>'message'\<close> listener set in the \<^verbatim>\<open>asr_start\<close> branch.\<close>

definition gatewayOnMessage :: "handle \<Rightarrow> gatewayData \<Rightarrow> relay \<Rightarrow> relay" where
  "gatewayOnMessage h gd st =
     (let w = bOwner (sockets st h) in
      case gd of
        GNotJSON \<Rightarrow> uncaught st
      | GParsed r \<Rightarrow>
          (let st1 = asrLog ''[ASR] Received from Gateway:'' st in
           case r of
             GConnected \<Rightarrow> asrLog ''[ASR] Gateway connected, client ID:'' st1
           | GAsrConnected \<Rightarrow>
               (let st2 = asrLog ''[ASR] ASR backend ready'' st1;
                    st3 = setInfo w ((heap st2 w)\<lparr>sessionReady := True\<rparr>) st2
                in wsSend w (AsrResponse AsrReady) st3)
           | GAsrDisconnected \<Rightarrow>
               (let st2 = asrLog ''[ASR] ASR backend disconnected'' st1
                in setInfo w ((heap st2 w)\<lparr>sessionReady := False\<rparr>) st2)
           | GPartialResult t \<Rightarrow>
               wsSend w (AsrResponse (Partial t)) (asrLog ''[ASR] Partial result:'' st1)
           | GFinalResult t \<Rightarrow>
               wsSend w (AsrResponse (Completed t)) (asrLog ''[ASR] Final result:'' st1)
           | GCorrectionResult orig corr \<Rightarrow>
               wsSend w (AsrResponse (CorrectionResult orig corr))
                 (asrLog ''[ASR] Claude correction:'' st1)
           | GError e \<Rightarrow>
               wsSend w (AsrResponse (AsrError e)) (asrLog ''[ASR] Gateway error:'' st1)
           | GPong \<Rightarrow> st1
           | GOther x \<Rightarrow> wsSend w (AsrResponse (Opaque x)) st1))"

text \<open>
  The \<^verbatim>\<open>'error'\<close> listener set in the \<^verbatim>\<open>asr_start\<close> branch; \<open>e\<close> is \<^verbatim>\<open>error.message\<close>.
\<close>

definition gatewayOnError :: "handle \<Rightarrow> string option \<Rightarrow> relay \<Rightarrow> relay" where
  "gatewayOnError h e st =
     (let w = bOwner (sockets st h);
          st1 = asrLog ''[ASR] Gateway error:'' st
      in wsSend w (AsrResponse (AsrError (Some (orStr e ''Gateway connection error'')))) st1)"

text \<open>The \<^verbatim>\<open>'close'\<close> listener set in the \<^verbatim>\<open>asr_start\<close> branch.\<close>

definition gatewayOnClose :: "handle \<Rightarrow> relay \<Rightarrow> relay" where
  "gatewayOnClose h st =
     (let w = bOwner (sockets st h);
          st1 = asrLog ''[ASR] Gateway connection closed.'' st
      in setInfo w ((heap st1 w)\<lparr>asrWs := None, sessionReady := False\<rparr>) st1)"

text \<open>The three listeners of \<^verbatim>\<open>correctionWs\<close> in the \<^verbatim>\<open>claude_process\<close> branch.\<close>

definition correctionOnOpen :: "handle \<Rightarrow> relay \<Rightarrow> relay" where
  "correctionOnOpen h st =
     (let m = bMsg (sockets st h)
      in sockSend h (CorrectText (msg_transcript m) (msg_context m)) st)"

definition correctionOnMessage :: "handle \<Rightarrow> gatewayData \<Rightarrow> relay \<Rightarrow> relay" where
  "correctionOnMessage h gd st =
     (let w = bOwner (sockets st h) in
      case gd of
        GNotJSON \<Rightarrow> uncaught st
      | GParsed (GCorrectionResult orig corr) \<Rightarrow>
          sockClose h None (wsSend w (ClaudeResponse corr (Some True) None None) st)
      | GParsed _ \<Rightarrow> st)"

definition correctionOnError :: "handle \<Rightarrow> string option \<Rightarrow> relay \<Rightarrow> relay" where
  "correctionOnError h e st =
     (let w = bOwner (sockets st h);
          m = bMsg (sockets st h);
          st1 = asrLog ''[Claude] Gateway correction error:'' st
      in wsSend w (ClaudeResponse None None e (msg_transcript m)) st1)"

section \<open>Events\<close>

datatype event =
    Connection
  | WsMessage ws wsData
  | WsClosing ws
  | WsClose ws
  | PtyData string
  | PtyExit int
  | StdoutResize "int option" "int option"
  | SockOpen handle
  | SockMessage handle gatewayData
  | SockError handle "string option"
  | SockClosed handle
  | TimerFire nat

definition setSockReady :: "handle \<Rightarrow> readyState \<Rightarrow> relay \<Rightarrow> relay" where
  "setSockReady h r st = st\<lparr>sockets := (sockets st)(h := (sockets st h)\<lparr>bReady := r\<rparr>)\<rparr>"

definition removeNth :: "nat \<Rightarrow> 'a list \<Rightarrow> 'a list" where
  "removeNth i xs = take i xs @ drop (Suc i) xs"

text \<open>
  What one event does. An event that its source cannot raise in the current state (a
  frame on a socket that does not exist or is closed, output of a PTY that is not
  running, a timer that is not pending) does nothing.
\<close>

fun fire :: "event \<Rightarrow> relay \<Rightarrow> relay" where
  "fire Connection st = onConnection st"
| "fire (WsMessage w d) st =
     (if w < nextWs st \<and> wsReadyState st w \<noteq> CLOSED then onMessage w d st else st)"
| "fire (WsClosing w) st =
     (if w < nextWs st \<and> wsReadyState st w = OPEN
      then st\<lparr>wsReadyState := (wsReadyState st)(w := CLOSING)\<rparr> else st)"
| "fire (WsClose w) st =
     (if w < nextWs st \<and> wsReadyState st w \<noteq> CLOSED
      then onClose w (st\<lparr>wsReadyState := (wsReadyState st)(w := CLOSED)\<rparr>) else st)"
| "fire (PtyData d) st = (if ptyProcess st \<noteq> None then ptyOnData d st else st)"
| "fire (PtyExit code) st = (if ptyProcess st \<noteq> None then ptyOnExit code st else st)"
| "fire (StdoutResize c r) st = stdoutResize c r st"
| "fire (SockOpen h) st =
     (if h < nextHandle st \<and> bReady (sockets st h) = CONNECTING then
        (let st1 = setSockReady h OPEN st
         in case bKind (sockets st1 h) of
              Gateway \<Rightarrow> gatewayOnOpen h st1
            | Correction \<Rightarrow> correctionOnOpen h st1)
      else st)"
| "fire (SockMessage h gd) st =
     (if h < nextHandle st \<and> (bReady (sockets st h) = OPEN \<or> bReady (sockets st h) = CLOSING) then
        (case bKind (sockets st h) of
           Gateway \<Rightarrow> gatewayOnMessage h gd st
         | Correction \<Rightarrow> correctionOnMessage h gd st)
      else st)"
| "fire (SockError h e) st =
     (if h < nextHandle st \<and> bReady (sockets st h) \<noteq> CLOSED then
        (case bKind (sockets st h) of
           Gateway \<Rightarrow> gatewayOnError h e st
         | Correction \<Rightarrow> correctionOnError h e st)
      else st)"
| "fire (SockClosed h) st =
     (if h < nextHandle st \<and> bReady (sockets st h) \<noteq> CLOSED then
        (let st1 = setSockReady h CLOSED st
         in case bKind (sockets st1 h) of
              Gateway \<Rightarrow> gatewayOnClose h st1
            | Correction \<Rightarrow> st1)
      else st)"
| "fire (TimerFire i) st =
     (if i < length (timers st)
      then stopTimeout (snd (timers st ! i)) (st\<lparr>timers := removeNth i (timers st)\<rparr>)
      else st)"

text \<open>
  After an uncaught exception or \<^verbatim>\<open>process.exit\<close> the process is gone: no further
  event is handled.
\<close>

definition step :: "event \<Rightarrow> relay \<Rightarrow> relay" where
  "step e st = (if crashed st then st else fire e st)"

fun run :: "event list \<Rightarrow> relay \<Rightarrow> relay" where
  "run [] st = st"
| "run (e # es) st = run es (step e st)"

text \<open>
  The state \<^verbatim>\<open>startSession\<close> leaves, before any client: \<^verbatim>\<open>startWebServer\<close> has
  registered its data and exit callbacks, \<^verbatim>\<open>spawnPTY\<close> has started a shell on a
  terminal of 120 by 40, and \<^verbatim>\<open>startSession\<close> has then registered its own exit
  callback, which is the one the slot holds from then on.
\<close>

definition noInfo :: clientInfo where
  "noInfo = \<lparr>cols = 80, rows = 24, clientId = 0, asrWs = None, sessionReady = False,
             audioChunkCount = 0, terminalContext = []\<rparr>"

definition noMsg :: msg where
  "noMsg = \<lparr>msg_type = None, msg_data = None, msg_cols = None, msg_rows = None,
            msg_language = None, msg_model = None, msg_context = None, msg_audio = None,
            msg_transcript = None\<rparr>"

definition noSocket :: backendSock where
  "noSocket = \<lparr>bKind = Gateway, bOwner = 0, bMsg = noMsg, bReady = CLOSED, bSent = [],
               bCloseCalls = []\<rparr>"

definition started :: relay where
  "started =
     \<lparr>ptyProcess = Some \<lparr>pcols = 120, prows = 40, pinput = []\<rparr>,
      dataCallback = True, exitCallback = Some (SessionExit None),
      localCols = 120, localRows = 40, stdout = [],
      webCols = 0, webRows = 0,
      connectedClients = [], heap = (\<lambda>w. noInfo), outputBuffer = [],
      clientIdCounter = 0, debugAsrEnabled = False,
      nextWs = 0, wsReadyState = (\<lambda>w. CLOSED), wsSent = (\<lambda>w. []),
      nextHandle = 0, sockets = (\<lambda>h. noSocket),
      timers = [], console = [], crashed = False, exited = None\<rparr>"

section \<open>Vocabulary of the properties\<close>

text \<open>
  The clients that count for the size: those in the registry whose stored columns and
  rows are both positive. \<open>minCols\<close> and \<open>minRows\<close> are the smallest width and height
  among the local terminal and these clients.
\<close>

definition reportedClients :: "relay \<Rightarrow> clientInfo list" where
  "reportedClients st =
     filter (\<lambda>ci. cols ci > 0 \<and> rows ci > 0) (map (heap st) (connectedClients st))"

definition minCols :: "relay \<Rightarrow> int" where
  "minCols st = Min (insert (localCols st) (cols ` set (reportedClients st)))"

definition minRows :: "relay \<Rightarrow> int" where
  "minRows st = Min (insert (localRows st) (rows ` set (reportedClients st)))"

text \<open>
  A local terminal of 120 by 40 with two clients that have reported 80 by 24 and
  100 by 30, the PTY still at the local size.
\<close>

definition twoClients :: relay where
  "twoClients =
     started\<lparr>connectedClients := [0, 1], nextWs := 2,
       heap := (\<lambda>w. if w = 0 then noInfo\<lparr>cols := 80, rows := 24\<rparr>
                     else if w = 1 then noInfo\<lparr>cols := 100, rows := 30\<rparr> else noInfo),
       wsReadyState := (\<lambda>w. if w < 2 then OPEN else CLOSED)\<rparr>"

text \<open>Output chunks that differ from one another: the \<open>n\<close>-th is \<open>n\<close> letters long.\<close>

definition chunk :: "nat \<Rightarrow> string" where
  "chunk n = replicate n (CHR ''x'')"

text \<open>The values of \<^verbatim>\<open>msg.type\<close> that some branch of the message listener tests for.\<close>

definition knownTypes :: "string list" where
  "knownTypes = [''input'', ''asr_start'', ''asr_audio'', ''asr_commit'', ''asr_stop'',
                 ''claude_process'', ''resize'']"


text \<open>
  Example messages and states: one client that has asked for transcription, before the
  gateway socket has opened (\<open>connecting\<close>) and after the gateway has confirmed
  (\<open>ready\<close>).
\<close>

definition typedMsg :: "string \<Rightarrow> msg" where
  "typedMsg t = noMsg\<lparr>msg_type := Some t\<rparr>"


definition connecting :: relay where
  "connecting = run [Connection, WsMessage 0 (JSONValue (typedMsg ''asr_start''))] started"

definition ready :: relay where
  "ready = run [SockOpen 0, SockMessage 0 (GParsed GAsrConnected)] connecting"

text \<open>The client holds an outbound ASR socket, and that socket is open.\<close>

definition gatewayOpen :: "ws \<Rightarrow> relay \<Rightarrow> bool" where
  "gatewayOpen w st =
     (case asrWs (heap st w) of
        None \<Rightarrow> False
      | Some h \<Rightarrow> bReady (sockets st h) = OPEN)"

text \<open>A correction request for a misheard transcript.\<close>

definition claudeMsg :: msg where
  "claudeMsg = (typedMsg ''claude_process'')\<lparr>msg_transcript := Some ''helo wrld''\<rparr>"

text \<open>The open outbound ASR sockets that were opened for a client.\<close>

definition openGateways :: "ws \<Rightarrow> relay \<Rightarrow> handle list" where
  "openGateways w st =
     filter (\<lambda>h. bKind (sockets st h) = Gateway \<and> bOwner (sockets st h) = w
                  \<and> bReady (sockets st h) = OPEN) [0..<nextHandle st]"

text \<open>
  Replay messages, and the relation between what a client had been sent at one moment
  and what it has been sent later: the earlier messages are still the first ones, and
  none of the later ones is a replay.
\<close>

fun isHistory :: "serverMsg \<Rightarrow> bool" where
  "isHistory (History xs) = True"
| "isHistory m = False"

definition liveExt :: "serverMsg list \<Rightarrow> serverMsg list \<Rightarrow> bool" where
  "liveExt old new =
     (take (length old) new = old \<and> filter isHistory (drop (length old) new) = [])"

section \<open>Frame lemmas\<close>

lemma wsSend_fields [simp]:
  "ptyProcess (wsSend w m st) = ptyProcess st"
  "dataCallback (wsSend w m st) = dataCallback st"
  "exitCallback (wsSend w m st) = exitCallback st"
  "localCols (wsSend w m st) = localCols st"
  "localRows (wsSend w m st) = localRows st"
  "stdout (wsSend w m st) = stdout st"
  "connectedClients (wsSend w m st) = connectedClients st"
  "heap (wsSend w m st) = heap st"
  "outputBuffer (wsSend w m st) = outputBuffer st"
  "nextWs (wsSend w m st) = nextWs st"
  "wsReadyState (wsSend w m st) = wsReadyState st"
  "nextHandle (wsSend w m st) = nextHandle st"
  "sockets (wsSend w m st) = sockets st"
  "timers (wsSend w m st) = timers st"
  "crashed (wsSend w m st) = crashed st"
  by (simp_all add: wsSend_def)

lemma sendAll_fields [simp]:
  "ptyProcess (sendAll cs m st) = ptyProcess st"
  "dataCallback (sendAll cs m st) = dataCallback st"
  "exitCallback (sendAll cs m st) = exitCallback st"
  "localCols (sendAll cs m st) = localCols st"
  "localRows (sendAll cs m st) = localRows st"
  "stdout (sendAll cs m st) = stdout st"
  "connectedClients (sendAll cs m st) = connectedClients st"
  "heap (sendAll cs m st) = heap st"
  "outputBuffer (sendAll cs m st) = outputBuffer st"
  "nextWs (sendAll cs m st) = nextWs st"
  "wsReadyState (sendAll cs m st) = wsReadyState st"
  "nextHandle (sendAll cs m st) = nextHandle st"
  "sockets (sendAll cs m st) = sockets st"
  "timers (sendAll cs m st) = timers st"
  "crashed (sendAll cs m st) = crashed st"
  by (induction cs arbitrary: st; simp)+

lemma webOnPTYData_fields [simp]:
  "ptyProcess (webOnPTYData d st) = ptyProcess st"
  "dataCallback (webOnPTYData d st) = dataCallback st"
  "exitCallback (webOnPTYData d st) = exitCallback st"
  "stdout (webOnPTYData d st) = stdout st"
  "connectedClients (webOnPTYData d st) = connectedClients st"
  "outputBuffer (webOnPTYData d st) = pushChunk d (outputBuffer st)"
  "nextWs (webOnPTYData d st) = nextWs st"
  "wsReadyState (webOnPTYData d st) = wsReadyState st"
  "crashed (webOnPTYData d st) = crashed st"
  by (simp_all add: webOnPTYData_def broadcast_def)

lemma ptyOnData_fields [simp]:
  "ptyProcess (ptyOnData d st) = ptyProcess st"
  "dataCallback (ptyOnData d st) = dataCallback st"
  "exitCallback (ptyOnData d st) = exitCallback st"
  "stdout (ptyOnData d st) = stdout st @ [d]"
  "connectedClients (ptyOnData d st) = connectedClients st"
  "nextWs (ptyOnData d st) = nextWs st"
  "wsReadyState (ptyOnData d st) = wsReadyState st"
  "crashed (ptyOnData d st) = crashed st"
  by (simp_all add: ptyOnData_def Let_def)

lemma ptyOnData_buffer:
  "outputBuffer (ptyOnData d st) =
     (if dataCallback st then pushChunk d (outputBuffer st) else outputBuffer st)"
  by (simp add: ptyOnData_def Let_def)

lemma run_append: "run (es @ fs) st = run fs (run es st)"
  by (induction es arbitrary: st) simp_all

lemma step_PtyData:
  "ptyProcess st \<noteq> None \<Longrightarrow> \<not> crashed st \<Longrightarrow> step (PtyData d) st = ptyOnData d st"
  by (simp add: step_def)

section \<open>The history buffer\<close>

lemma push_len: "length (pushChunk d buf) \<le> 5000"
  by (simp add: pushChunk_def sliceLast_def MAX_BUFFER_SIZE_def Let_def)

lemma push_last: "last (pushChunk d buf) = d"
  by (simp add: pushChunk_def sliceLast_def MAX_BUFFER_SIZE_def Let_def)

lemma push_small: "length buf < 5000 \<Longrightarrow> pushChunk d buf = buf @ [d]"
  by (simp add: pushChunk_def sliceLast_def MAX_BUFFER_SIZE_def Let_def)

text \<open>As long as the buffer stays within its capacity, PTY output is appended as it is.\<close>

lemma run_PtyData_small:
  "ptyProcess st \<noteq> None \<Longrightarrow> \<not> crashed st \<Longrightarrow> dataCallback st \<Longrightarrow>
   length (outputBuffer st) + length ds \<le> 5000 \<Longrightarrow>
   outputBuffer (run (map PtyData ds) st) = outputBuffer st @ ds
   \<and> ptyProcess (run (map PtyData ds) st) \<noteq> None \<and> \<not> crashed (run (map PtyData ds) st)
   \<and> dataCallback (run (map PtyData ds) st)"
proof (induction ds arbitrary: st)
  case Nil
  then show ?case by simp
next
  case (Cons d ds)
  let ?s = "ptyOnData d st"
  have b: "outputBuffer ?s = outputBuffer st @ [d]"
    using Cons.prems by (simp add: ptyOnData_buffer push_small)
  have "length (outputBuffer ?s) + length ds \<le> 5000"
    using Cons.prems b by simp
  then have "outputBuffer (run (map PtyData ds) ?s) = outputBuffer ?s @ ds
     \<and> ptyProcess (run (map PtyData ds) ?s) \<noteq> None \<and> \<not> crashed (run (map PtyData ds) ?s)
     \<and> dataCallback (run (map PtyData ds) ?s)"
    using Cons.prems by (intro Cons.IH) simp_all
  then show ?case
    using Cons.prems b by (simp add: step_PtyData)
qed

text \<open>
  Claim C4. After the output callback has appended a chunk \<open>d\<close>, in any state: the
  buffer holds at most 5000 entries and ends with \<open>d\<close>; a buffer that held 5000 entries
  or more before, so that the append takes it past 5000, is left as its own last 2999
  entries, in their order, followed by \<open>d\<close>, which are exactly 3000 entries; a shorter
  buffer is only extended by \<open>d\<close>. When the PTY produces 5001 chunks starting from an
  empty buffer, the buffer ends up as those chunks without the first 2001, that is the
  3000 most recent ones in their order, ending with the 5001st.
\<close>

theorem history_trim:
  "length (outputBuffer (webOnPTYData d st)) \<le> 5000
   \<and> last (outputBuffer (webOnPTYData d st)) = d
   \<and> (length (outputBuffer st) \<ge> 5000 \<longrightarrow>
        outputBuffer (webOnPTYData d st) =
          drop (length (outputBuffer st) - 2999) (outputBuffer st) @ [d]
        \<and> length (outputBuffer (webOnPTYData d st)) = 3000)
   \<and> (length (outputBuffer st) < 5000 \<longrightarrow>
        outputBuffer (webOnPTYData d st) = outputBuffer st @ [d])
   \<and> (ptyProcess st \<noteq> None \<and> \<not> crashed st \<and> dataCallback st \<and> outputBuffer st = []
        \<and> length ds = 5001 \<longrightarrow>
        outputBuffer (run (map PtyData ds) st) = drop 2001 ds
        \<and> length (outputBuffer (run (map PtyData ds) st)) = 3000
        \<and> last (outputBuffer (run (map PtyData ds) st)) = last ds)"
proof (intro conjI impI)
  show "length (outputBuffer (webOnPTYData d st)) \<le> 5000"
    by (simp add: push_len)
  show "last (outputBuffer (webOnPTYData d st)) = d"
    by (simp add: push_last)
  show "outputBuffer (webOnPTYData d st) = outputBuffer st @ [d]"
    if "length (outputBuffer st) < 5000"
    using that by (simp add: push_small)
next
  assume "5000 \<le> length (outputBuffer st)"
  then show "outputBuffer (webOnPTYData d st) =
          drop (length (outputBuffer st) - 2999) (outputBuffer st) @ [d]"
    and "length (outputBuffer (webOnPTYData d st)) = 3000"
    by (simp_all add: pushChunk_def sliceLast_def MAX_BUFFER_SIZE_def Let_def)
next
  assume a: "ptyProcess st \<noteq> None \<and> \<not> crashed st \<and> dataCallback st \<and> outputBuffer st = []
    \<and> length ds = 5001"
  then have ne: "ds \<noteq> []" by auto
  define xs where "xs = butlast ds"
  define x where "x = last ds"
  have ds: "ds = xs @ [x]" using ne by (simp add: xs_def x_def)
  have lx: "length xs = 5000" using a by (simp add: xs_def)
  let ?s = "run (map PtyData xs) st"
  have mid: "outputBuffer ?s = outputBuffer st @ xs
     \<and> ptyProcess ?s \<noteq> None \<and> \<not> crashed ?s \<and> dataCallback ?s"
    using a lx by (intro run_PtyData_small) simp_all
  have "run (map PtyData ds) st = ptyOnData x ?s"
    using mid by (simp add: ds run_append step_PtyData)
  then have fin: "outputBuffer (run (map PtyData ds) st) = pushChunk x xs"
    using mid a by (simp add: ptyOnData_buffer)
  have cut: "pushChunk x xs = drop 2001 ds"
    using lx by (simp add: ds pushChunk_def sliceLast_def MAX_BUFFER_SIZE_def Let_def)
  show "outputBuffer (run (map PtyData ds) st) = drop 2001 ds"
    using fin cut by simp
  show "length (outputBuffer (run (map PtyData ds) st)) = 3000"
    using fin cut a by simp
  show "last (outputBuffer (run (map PtyData ds) st)) = last ds"
    using fin by (simp add: push_last x_def)
qed

theorem history_trim_witness:
  "length (outputBuffer (started\<lparr>outputBuffer := map chunk [0..<5000]\<rparr>)) \<ge> 5000
   \<and> outputBuffer (webOnPTYData ''new'' (started\<lparr>outputBuffer := map chunk [0..<5000]\<rparr>))
       = map chunk [2001..<5000] @ [''new'']
   \<and> length (outputBuffer started) < 5000
   \<and> outputBuffer (webOnPTYData ''new'' started) = [''new'']
   \<and> ptyProcess started \<noteq> None \<and> \<not> crashed started \<and> dataCallback started
   \<and> outputBuffer started = [] \<and> length (map chunk [0..<5001]) = 5001
   \<and> outputBuffer (run (map PtyData (map chunk [0..<5001])) started) = map chunk [2001..<5001]
   \<and> length (outputBuffer (run (map PtyData (map chunk [0..<5001])) started)) = 3000
   \<and> last (outputBuffer (run (map PtyData (map chunk [0..<5001])) started)) = chunk 5000
   \<and> chunk 2001 \<noteq> chunk 0"
proof -
  have s: "ptyProcess started \<noteq> None" "\<not> crashed started" "dataCallback started"
    "outputBuffer started = []"
    by (simp_all add: started_def)
  have l: "last (map chunk [0..<5001]) = chunk 5000"
    "last (map chunk [2001..<5001]) = chunk 5000"
    by (simp_all add: last_map del: upt_rec_numeral)
  have d: "chunk 2001 \<noteq> chunk 0"
    by (simp add: chunk_def)
  have a: "outputBuffer (webOnPTYData ''new'' (started\<lparr>outputBuffer := map chunk [0..<5000]\<rparr>))
       = map chunk [2001..<5000] @ [''new'']"
    using history_trim [of "''new''" "started\<lparr>outputBuffer := map chunk [0..<5000]\<rparr>" "[]"]
    by (simp add: drop_map del: upt_rec_numeral)
  have b: "outputBuffer (webOnPTYData ''new'' started) = [''new'']"
    using history_trim [of "''new''" started "[]"] by (simp add: s)
  have c: "outputBuffer (run (map PtyData (map chunk [0..<5001])) started) = map chunk [2001..<5001]
   \<and> length (outputBuffer (run (map PtyData (map chunk [0..<5001])) started)) = 3000
   \<and> last (outputBuffer (run (map PtyData (map chunk [0..<5001])) started)) = chunk 5000"
    using history_trim [of "''new''" started "map chunk [0..<5001]"] s l
    by (simp add: drop_map del: upt_rec_numeral)
  show ?thesis
    using a b c d s by (simp add: l del: upt_rec_numeral)
qed

section \<open>Size reconciliation\<close>

lemma Min_insert_min:
  fixes a c :: int
  assumes "finite S"
  shows "Min (insert (min a c) S) = min a (Min (insert c S))"
proof (cases "S = {}")
  case True
  then show ?thesis by simp
next
  case False
  then show ?thesis using assms by (simp add: min.assoc)
qed

lemma minOver_Min:
  "minOver cis (a, b) =
     (Min (insert a (cols ` set (filter (\<lambda>ci. cols ci > 0 \<and> rows ci > 0) cis))),
      Min (insert b (rows ` set (filter (\<lambda>ci. cols ci > 0 \<and> rows ci > 0) cis))))"
proof (induction cis arbitrary: a b)
  case Nil
  then show ?case by simp
next
  case (Cons ci cis)
  show ?case
  proof (cases "cols ci > 0 \<and> rows ci > 0")
    case True
    then show ?thesis
      by (simp add: Cons.IH Min_insert_min)
  next
    case False
    then have "minOver (ci # cis) (a, b) = minOver cis (a, b)"
      and "filter (\<lambda>ci. cols ci > 0 \<and> rows ci > 0) (ci # cis)
           = filter (\<lambda>ci. cols ci > 0 \<and> rows ci > 0) cis"
      by auto
    then show ?thesis
      by (simp only: Cons.IH)
  qed
qed

lemma calculateMinSize_Min: "calculateMinSize st = (minCols st, minRows st)"
  by (simp add: calculateMinSize_def getLocalSize_def minOver_Min minCols_def minRows_def
      reportedClients_def)

lemma minCols_pos: "0 < localCols st \<Longrightarrow> 0 < minCols st"
  unfolding minCols_def reportedClients_def
  by (subst Min_gr_iff) auto

lemma minRows_pos: "0 < localRows st \<Longrightarrow> 0 < minRows st"
  unfolding minRows_def reportedClients_def
  by (subst Min_gr_iff) auto

text \<open>
  Claim C1. In every state \<^verbatim>\<open>calculateMinSize\<close> returns the componentwise minimum of
  the local terminal size and the sizes of the registered clients whose stored columns
  and rows are both positive. With no client registered, reconciliation
  (\<^verbatim>\<open>applyMinSize\<close>) resizes the PTY to the local size. With a local size that is
  positive in both dimensions it resizes the PTY to that minimum. In every state it
  either resizes to the minimum or, when a client is registered and the local size is
  not positive, applies nothing (the guard before \<^verbatim>\<open>resizePTY\<close>): a size that
  reconciliation applies is always the minimum. A resize of a running PTY sets its
  columns and rows to the size given.
\<close>

theorem effective_size:
  "calculateMinSize st = (minCols st, minRows st)
   \<and> (connectedClients st = [] \<longrightarrow>
        applyMinSize st = resizePTY (localCols st) (localRows st) st)
   \<and> (0 < localCols st \<and> 0 < localRows st \<longrightarrow>
        applyMinSize st = resizePTY (minCols st) (minRows st) st)
   \<and> (applyMinSize st = resizePTY (minCols st) (minRows st) st
        \<or> (applyMinSize st = st \<and> connectedClients st \<noteq> []
            \<and> (localCols st \<le> 0 \<or> localRows st \<le> 0)))
   \<and> (ptyProcess st = Some p \<longrightarrow>
        ptyProcess (resizePTY c r st) = Some (p\<lparr>pcols := c, prows := r\<rparr>))"
proof (intro conjI impI)
  show "calculateMinSize st = (minCols st, minRows st)"
    by (rule calculateMinSize_Min)
  show "applyMinSize st = resizePTY (localCols st) (localRows st) st"
    if "connectedClients st = []"
    using that by (simp add: applyMinSize_def getLocalSize_def)
  have empty: "connectedClients st = [] \<Longrightarrow> minCols st = localCols st \<and> minRows st = localRows st"
    by (simp add: minCols_def minRows_def reportedClients_def)
  show pos: "applyMinSize st = resizePTY (minCols st) (minRows st) st"
    if "0 < localCols st \<and> 0 < localRows st"
    using that empty
    by (simp add: applyMinSize_def getLocalSize_def calculateMinSize_Min minCols_pos minRows_pos)
  show "applyMinSize st = resizePTY (minCols st) (minRows st) st
        \<or> (applyMinSize st = st \<and> connectedClients st \<noteq> []
            \<and> (localCols st \<le> 0 \<or> localRows st \<le> 0))"
  proof (cases "0 < localCols st \<and> 0 < localRows st")
    case True
    then show ?thesis using pos by simp
  next
    case False
    then show ?thesis
      using empty
      by (auto simp: applyMinSize_def getLocalSize_def calculateMinSize_Min)
  qed
  show "ptyProcess (resizePTY c r st) = Some (p\<lparr>pcols := c, prows := r\<rparr>)"
    if "ptyProcess st = Some p"
    using that by (simp add: resizePTY_def)
qed

theorem effective_size_witness:
  "0 < localCols twoClients \<and> 0 < localRows twoClients
   \<and> ptyProcess twoClients = Some \<lparr>pcols = 120, prows = 40, pinput = []\<rparr>
   \<and> ptyProcess (applyMinSize twoClients) = Some \<lparr>pcols = 80, prows = 24, pinput = []\<rparr>
   \<and> connectedClients started = []
   \<and> ptyProcess (applyMinSize started) = Some \<lparr>pcols = 120, prows = 40, pinput = []\<rparr>"
proof -
  have l: "localCols twoClients = 120" "localRows twoClients = 40"
    by (simp_all add: twoClients_def started_def)
  have m: "minCols twoClients = 80" "minRows twoClients = 24"
    by (simp_all add: minCols_def minRows_def reportedClients_def twoClients_def started_def
        noInfo_def)
  have p: "ptyProcess twoClients = Some \<lparr>pcols = 120, prows = 40, pinput = []\<rparr>"
    by (simp add: twoClients_def started_def)
  have s: "connectedClients started = []"
    "ptyProcess started = Some \<lparr>pcols = 120, prows = 40, pinput = []\<rparr>"
    "localCols started = 120" "localRows started = 40"
    by (simp_all add: started_def)
  show ?thesis
    using effective_size [of twoClients "\<lparr>pcols = 120, prows = 40, pinput = []\<rparr>" 80 24]
      effective_size [of started "\<lparr>pcols = 120, prows = 40, pinput = []\<rparr>" 120 40]
    by (simp add: l m p s)
qed

section \<open>The PTY listeners\<close>

lemma run_PtyData_stdout:
  "ptyProcess st \<noteq> None \<Longrightarrow> \<not> crashed st \<Longrightarrow>
   stdout (run (map PtyData ds) st) = stdout st @ ds"
proof (induction ds arbitrary: st)
  case Nil
  then show ?case by simp
next
  case (Cons d ds)
  have "stdout (run (map PtyData ds) (ptyOnData d st)) = stdout (ptyOnData d st) @ ds"
    using Cons.prems by (intro Cons.IH) simp_all
  then show ?case
    using Cons.prems by (simp add: step_PtyData)
qed

text \<open>
  Claim C10. The output listener of the PTY first appends the chunk to the local
  terminal's output and only then, if a data callback is registered, runs the callback,
  on the state in which the chunk is already written. The local output grows by the
  chunk in every state, whatever the registry holds; over any sequence of chunks of a
  running PTY the local terminal has received all of them in order.
\<close>

theorem local_mirror:
  "ptyOnData d st =
     (if dataCallback st then webOnPTYData d (st\<lparr>stdout := stdout st @ [d]\<rparr>)
      else st\<lparr>stdout := stdout st @ [d]\<rparr>)
   \<and> stdout (ptyOnData d st) = stdout st @ [d]
   \<and> (ptyProcess st \<noteq> None \<and> \<not> crashed st \<longrightarrow>
        stdout (run (map PtyData ds) st) = stdout st @ ds)"
  by (simp add: run_PtyData_stdout) (simp add: ptyOnData_def Let_def)

theorem local_mirror_witness:
  "ptyProcess started \<noteq> None \<and> \<not> crashed started \<and> connectedClients started = []
   \<and> stdout (run (map PtyData [''a'', ''b'']) started) = [''a'', ''b'']"
  using local_mirror [of "''a''" started "[''a'', ''b'']"]
  by (simp add: started_def)

lemma wsSent_wsSend:
  "wsSent (wsSend c m st) w =
     wsSent st w @ (if w = c \<and> wsReadyState st c = OPEN then [m] else [])"
  by (simp add: wsSend_def)

lemma wsSent_sendAll:
  "distinct cs \<Longrightarrow>
   wsSent (sendAll cs m st) w =
     wsSent st w @ (if w \<in> set cs \<and> wsReadyState st w = OPEN then [m] else [])"
proof (induction cs arbitrary: st)
  case Nil
  then show ?case by simp
next
  case (Cons c cs)
  then show ?case
    by (auto simp: wsSent_wsSend)
qed

lemma notRunning_noop:
  "ptyProcess s = None \<Longrightarrow> writeToPTY d s = s \<and> resizePTY c r s = s"
  by (simp add: writeToPTY_def resizePTY_def)

text \<open>
  Claim C7, evaluated on the code. \<^verbatim>\<open>startWebServer\<close> registers the broadcast of the
  exit message, and \<^verbatim>\<open>startSession\<close> then registers its own exit callback in the same
  slot: the slot holds the session's callback. A client connects after one chunk of
  output and the PTY child exits with code 3: the client has been sent the replay and
  nothing else, no \<open>Exit\<close> message; its socket is being closed, the registry is empty,
  the controller is not running and the process has exited with code 0. Had the broadcast
  still been in the slot, the client would have been sent \<open>Exit 3\<close>.
\<close>

theorem exit_message_lost:
  "exitCallback (onPTYExit (SessionExit None) (onPTYExit WebServerExit started))
     = Some (SessionExit None)
   \<and> exitCallback started = Some (SessionExit None)
   \<and> wsSent (run [PtyData ''a'', Connection] started) 0 = [History [''a'']]
   \<and> wsReadyState (run [PtyData ''a'', Connection] started) 0 = OPEN
   \<and> connectedClients (run [PtyData ''a'', Connection] started) = [0]
   \<and> wsSent (run [PtyData ''a'', Connection, PtyExit 3] started) 0 = [History [''a'']]
   \<and> Exit 3 \<notin> set (wsSent (run [PtyData ''a'', Connection, PtyExit 3] started) 0)
   \<and> wsReadyState (run [PtyData ''a'', Connection, PtyExit 3] started) 0 = CLOSING
   \<and> connectedClients (run [PtyData ''a'', Connection, PtyExit 3] started) = []
   \<and> ptyProcess (run [PtyData ''a'', Connection, PtyExit 3] started) = None
   \<and> exited (run [PtyData ''a'', Connection, PtyExit 3] started) = Some 0
   \<and> wsSent (run [PtyData ''a'', Connection, PtyExit 3] (onPTYExit WebServerExit started)) 0
       = [History [''a''], Exit 3]"
  by code_simp

section \<open>The message listener\<close>

lemma asrLog_fields [simp]:
  "ptyProcess (asrLog s st) = ptyProcess st"
  "localCols (asrLog s st) = localCols st"
  "localRows (asrLog s st) = localRows st"
  "connectedClients (asrLog s st) = connectedClients st"
  "heap (asrLog s st) = heap st"
  "outputBuffer (asrLog s st) = outputBuffer st"
  "nextWs (asrLog s st) = nextWs st"
  "wsReadyState (asrLog s st) = wsReadyState st"
  "wsSent (asrLog s st) = wsSent st"
  "nextHandle (asrLog s st) = nextHandle st"
  "sockets (asrLog s st) = sockets st"
  "timers (asrLog s st) = timers st"
  "crashed (asrLog s st) = crashed st"
  by (simp_all add: asrLog_def)


lemma resizePTY_fields [simp]:
  "localCols (resizePTY c r st) = localCols st"
  "localRows (resizePTY c r st) = localRows st"
  "connectedClients (resizePTY c r st) = connectedClients st"
  "heap (resizePTY c r st) = heap st"
  "outputBuffer (resizePTY c r st) = outputBuffer st"
  "nextWs (resizePTY c r st) = nextWs st"
  "wsReadyState (resizePTY c r st) = wsReadyState st"
  "wsSent (resizePTY c r st) = wsSent st"
  "nextHandle (resizePTY c r st) = nextHandle st"
  "sockets (resizePTY c r st) = sockets st"
  "timers (resizePTY c r st) = timers st"
  "crashed (resizePTY c r st) = crashed st"
  by (simp_all add: resizePTY_def split: option.splits)

lemma applyMinSize_fields [simp]:
  "localCols (applyMinSize st) = localCols st"
  "localRows (applyMinSize st) = localRows st"
  "connectedClients (applyMinSize st) = connectedClients st"
  "heap (applyMinSize st) = heap st"
  "outputBuffer (applyMinSize st) = outputBuffer st"
  "nextWs (applyMinSize st) = nextWs st"
  "wsReadyState (applyMinSize st) = wsReadyState st"
  "wsSent (applyMinSize st) = wsSent st"
  "nextHandle (applyMinSize st) = nextHandle st"
  "sockets (applyMinSize st) = sockets st"
  "timers (applyMinSize st) = timers st"
  "crashed (applyMinSize st) = crashed st"
  by (simp_all add: applyMinSize_def split: prod.splits)

lemma unknown_neq:
  "(case msg_type m of None \<Rightarrow> True | Some t \<Rightarrow> t \<notin> set knownTypes) \<Longrightarrow>
   msg_type m \<noteq> Some ''input'' \<and> msg_type m \<noteq> Some ''asr_start''
   \<and> msg_type m \<noteq> Some ''asr_audio'' \<and> msg_type m \<noteq> Some ''asr_commit''
   \<and> msg_type m \<noteq> Some ''asr_stop'' \<and> msg_type m \<noteq> Some ''claude_process''
   \<and> msg_type m \<noteq> Some ''resize''"
  unfolding knownTypes_def by (cases "msg_type m") auto

lemma dispatch_unknown:
  "(case msg_type m of None \<Rightarrow> True | Some t \<Rightarrow> t \<notin> set knownTypes) \<Longrightarrow> dispatch w m st = st"
  using unknown_neq [of m]
  by (simp add: dispatch_def handleInput_def handleAsrStart_def
      handleAsrAudio_def handleAsrCommit_def handleAsrStop_def handleClaudeProcess_def
      handleResize_def)



lemma dispatch_claude:
  "msg_type m = Some ''claude_process'' \<Longrightarrow> dispatch w m st = handleClaudeProcess w m st"
  by (simp add: dispatch_def handleInput_def handleAsrStart_def handleAsrAudio_def
      handleAsrCommit_def handleAsrStop_def handleResize_def)

text \<open>
  Claim C8. A client frame that is not JSON, or that parses to \<^verbatim>\<open>null\<close>, is logged and
  dropped: the listener appends one line to the console and changes nothing else, so the
  exception it caught does not escape, the socket keeps its state, and the registry, the
  client records, the history buffer, the PTY and what has been sent to the clients are
  as before. A parsed message whose type is absent or is none of the types the listener
  tests for changes nothing at all.
\<close>

theorem malformed_dropped:
  "(d = NotJSON \<or> d = JSONNull \<longrightarrow>
      onMessage w d st = consoleError ''  [WebServer] Invalid message:'' st
      \<and> (step (WsMessage w d) st)\<lparr>console := console st\<rparr> = st
      \<and> crashed (step (WsMessage w d) st) = crashed st
      \<and> wsReadyState (step (WsMessage w d) st) = wsReadyState st
      \<and> connectedClients (step (WsMessage w d) st) = connectedClients st
      \<and> heap (step (WsMessage w d) st) = heap st
      \<and> outputBuffer (step (WsMessage w d) st) = outputBuffer st
      \<and> ptyProcess (step (WsMessage w d) st) = ptyProcess st
      \<and> wsSent (step (WsMessage w d) st) = wsSent st)
   \<and> console (consoleError s st) = console st @ [s]
   \<and> ((case msg_type m of None \<Rightarrow> True | Some t \<Rightarrow> t \<notin> set knownTypes) \<longrightarrow>
        onMessage w (JSONValue m) st = st \<and> step (WsMessage w (JSONValue m)) st = st)"
proof (intro conjI impI)
  assume d: "d = NotJSON \<or> d = JSONNull"
  then show o: "onMessage w d st = consoleError ''  [WebServer] Invalid message:'' st"
    by (auto simp: onMessage_def)
  have s: "step (WsMessage w d) st = st
        \<or> step (WsMessage w d) st = consoleError ''  [WebServer] Invalid message:'' st"
    using o by (simp add: step_def)
  then show "(step (WsMessage w d) st)\<lparr>console := console st\<rparr> = st"
    by (auto simp: consoleError_def)
  show "crashed (step (WsMessage w d) st) = crashed st"
    using s by (auto simp: consoleError_def)
  show "wsReadyState (step (WsMessage w d) st) = wsReadyState st"
    using s by (auto simp: consoleError_def)
  show "connectedClients (step (WsMessage w d) st) = connectedClients st"
    using s by (auto simp: consoleError_def)
  show "heap (step (WsMessage w d) st) = heap st"
    using s by (auto simp: consoleError_def)
  show "outputBuffer (step (WsMessage w d) st) = outputBuffer st"
    using s by (auto simp: consoleError_def)
  show "ptyProcess (step (WsMessage w d) st) = ptyProcess st"
    using s by (auto simp: consoleError_def)
  show "wsSent (step (WsMessage w d) st) = wsSent st"
    using s by (auto simp: consoleError_def)
next
  show "console (consoleError s st) = console st @ [s]"
    by (simp add: consoleError_def)
next
  assume u: "case msg_type m of None \<Rightarrow> True | Some t \<Rightarrow> t \<notin> set knownTypes"
  then show o: "onMessage w (JSONValue m) st = st"
    by (simp add: onMessage_def dispatch_unknown)
  then show "step (WsMessage w (JSONValue m)) st = st"
    by (simp add: step_def)
qed

theorem malformed_dropped_witness:
  "console (step (WsMessage 0 NotJSON) ready) = [''  [WebServer] Invalid message:'']
   \<and> (step (WsMessage 0 NotJSON) ready)\<lparr>console := console ready\<rparr> = ready
   \<and> wsReadyState (step (WsMessage 0 JSONNull) ready) 0 = OPEN
   \<and> msg_type (typedMsg ''ping'') = Some ''ping'' \<and> ''ping'' \<notin> set knownTypes
   \<and> step (WsMessage 0 (JSONValue (typedMsg ''ping''))) ready = ready
   \<and> step (WsMessage 0 (JSONValue noMsg)) ready = ready"
proof -
  have c: "console (step (WsMessage 0 NotJSON) ready) = [''  [WebServer] Invalid message:'']"
    by code_simp
  have r: "wsReadyState ready 0 = OPEN"
    by code_simp
  have t: "msg_type (typedMsg ''ping'') = Some ''ping''" "''ping'' \<notin> set knownTypes"
    "msg_type noMsg = None"
    by code_simp+
  show ?thesis
    using malformed_dropped [of NotJSON 0 ready "[]" "typedMsg ''ping''"]
      malformed_dropped [of JSONNull 0 ready "[]" noMsg]
    by (simp add: c r t)
qed

section \<open>Audio chunks\<close>







section \<open>Disconnect and stop\<close>


lemma min_applyMinSize [simp]:
  "minCols (applyMinSize st) = minCols st" "minRows (applyMinSize st) = minRows st"
  by (simp_all add: minCols_def minRows_def reportedClients_def)

lemma sockClose_fields [simp]:
  "ptyProcess (sockClose h a st) = ptyProcess st"
  "localCols (sockClose h a st) = localCols st"
  "localRows (sockClose h a st) = localRows st"
  "connectedClients (sockClose h a st) = connectedClients st"
  "heap (sockClose h a st) = heap st"
  "outputBuffer (sockClose h a st) = outputBuffer st"
  "nextWs (sockClose h a st) = nextWs st"
  "wsReadyState (sockClose h a st) = wsReadyState st"
  "wsSent (sockClose h a st) = wsSent st"
  "nextHandle (sockClose h a st) = nextHandle st"
  "timers (sockClose h a st) = timers st"
  "crashed (sockClose h a st) = crashed st"
  by (simp_all add: sockClose_def)

lemma setInfo_fields [simp]:
  "ptyProcess (setInfo w ci st) = ptyProcess st"
  "localCols (setInfo w ci st) = localCols st"
  "localRows (setInfo w ci st) = localRows st"
  "connectedClients (setInfo w ci st) = connectedClients st"
  "heap (setInfo w ci st) = (heap st)(w := ci)"
  "outputBuffer (setInfo w ci st) = outputBuffer st"
  "nextWs (setInfo w ci st) = nextWs st"
  "wsReadyState (setInfo w ci st) = wsReadyState st"
  "wsSent (setInfo w ci st) = wsSent st"
  "nextHandle (setInfo w ci st) = nextHandle st"
  "sockets (setInfo w ci st) = sockets st"
  "timers (setInfo w ci st) = timers st"
  "crashed (setInfo w ci st) = crashed st"
  by (simp_all add: setInfo_def)

lemma sockSend_fields [simp]:
  "ptyProcess (sockSend h b st) = ptyProcess st"
  "localCols (sockSend h b st) = localCols st"
  "localRows (sockSend h b st) = localRows st"
  "connectedClients (sockSend h b st) = connectedClients st"
  "heap (sockSend h b st) = heap st"
  "outputBuffer (sockSend h b st) = outputBuffer st"
  "nextWs (sockSend h b st) = nextWs st"
  "wsReadyState (sockSend h b st) = wsReadyState st"
  "wsSent (sockSend h b st) = wsSent st"
  "nextHandle (sockSend h b st) = nextHandle st"
  "timers (sockSend h b st) = timers st"
  "crashed (sockSend h b st) = crashed st"
  by (simp_all add: sockSend_def)






section \<open>Correction requests\<close>

lemma newSocket_fields [simp]:
  "ptyProcess (newSocket k w m st) = ptyProcess st"
  "localCols (newSocket k w m st) = localCols st"
  "localRows (newSocket k w m st) = localRows st"
  "connectedClients (newSocket k w m st) = connectedClients st"
  "heap (newSocket k w m st) = heap st"
  "outputBuffer (newSocket k w m st) = outputBuffer st"
  "nextWs (newSocket k w m st) = nextWs st"
  "wsReadyState (newSocket k w m st) = wsReadyState st"
  "wsSent (newSocket k w m st) = wsSent st"
  "nextHandle (newSocket k w m st) = Suc (nextHandle st)"
  "timers (newSocket k w m st) = timers st"
  "crashed (newSocket k w m st) = crashed st"
  by (simp_all add: newSocket_def)

lemma claude_fresh:
  assumes "msg_type m = Some ''claude_process''" and "\<not> gatewayOpen w st"
  shows "onMessage w (JSONValue m) st =
           newSocket Correction w m (asrLog ''[Claude] Processing request via Gateway'' st)"
  using assms
  by (auto simp: onMessage_def dispatch_claude handleClaudeProcess_def gatewayOpen_def Let_def
      split: option.splits)

lemma claude_reuse:
  assumes "msg_type m = Some ''claude_process''" and "asrWs (heap st w) = Some h"
    and "bReady (sockets st h) = OPEN"
  shows "onMessage w (JSONValue m) st =
           sockSend h (CorrectText (msg_transcript m)
                  (if truthy (msg_context m) then msg_context m
                   else Some (terminalContext (heap st w))))
             (asrLog ''[Claude] Processing request via Gateway'' st)"
  using assms
  by (simp add: onMessage_def dispatch_claude handleClaudeProcess_def Let_def)

lemma wsSent_wsSend_open:
  "wsReadyState st w = OPEN \<Longrightarrow> wsSent (wsSend w m st) w = wsSent st w @ [m]"
  by (simp add: wsSend_def)

text \<open>
  Claim C9, as amended. A \<^verbatim>\<open>claude_process\<close> request that arrives while the client
  holds no open ASR socket opens a correction socket of its own and sends the client
  nothing yet; an error event on that socket then sends the client (its socket being
  open) exactly one \<open>ClaudeResponse\<close> that carries the error and, as fallback, the
  transcript of the request. This is what the error listener of a correction socket does
  in every state. A request that arrives while the client's ASR socket is open is sent
  on that socket as \<open>CorrectText\<close> and opens no socket; an error event on the ASR
  socket is answered by the ASR error listener with an \<open>AsrResponse\<close> error.
\<close>

theorem correction_fallback:
  "(msg_type m = Some ''claude_process'' \<and> \<not> gatewayOpen w st \<longrightarrow>
      nextHandle (onMessage w (JSONValue m) st) = Suc (nextHandle st)
      \<and> sockets (onMessage w (JSONValue m) st) (nextHandle st) =
          \<lparr>bKind = Correction, bOwner = w, bMsg = m, bReady = CONNECTING, bSent = [],
           bCloseCalls = []\<rparr>
      \<and> wsSent (onMessage w (JSONValue m) st) = wsSent st
      \<and> (wsReadyState st w = OPEN \<longrightarrow>
           wsSent (fire (SockError (nextHandle st) e) (onMessage w (JSONValue m) st)) w =
             wsSent st w @ [ClaudeResponse None None e (msg_transcript m)]))
   \<and> (bKind (sockets s h) = Correction \<and> wsReadyState s (bOwner (sockets s h)) = OPEN \<longrightarrow>
        wsSent (correctionOnError h e s) (bOwner (sockets s h)) =
          wsSent s (bOwner (sockets s h)) @
            [ClaudeResponse None None e (msg_transcript (bMsg (sockets s h)))])
   \<and> (msg_type m = Some ''claude_process'' \<and> asrWs (heap st w) = Some g
        \<and> bReady (sockets st g) = OPEN \<longrightarrow>
        nextHandle (onMessage w (JSONValue m) st) = nextHandle st
        \<and> bSent (sockets (onMessage w (JSONValue m) st) g) =
            bSent (sockets st g) @
              [CorrectText (msg_transcript m)
                 (if truthy (msg_context m) then msg_context m
                  else Some (terminalContext (heap st w)))]
        \<and> wsSent (onMessage w (JSONValue m) st) = wsSent st
        \<and> (bKind (sockets st g) = Gateway \<and> bOwner (sockets st g) = w \<and> g < nextHandle st
             \<and> wsReadyState st w = OPEN \<longrightarrow>
             wsSent (fire (SockError g e) (onMessage w (JSONValue m) st)) w =
               wsSent st w @ [AsrResponse (AsrError (Some (orStr e ''Gateway connection error'')))]))"
proof (intro conjI impI)
  assume a: "msg_type m = Some ''claude_process'' \<and> \<not> gatewayOpen w st"
  let ?S = "onMessage w (JSONValue m) st"
  have o: "?S = newSocket Correction w m (asrLog ''[Claude] Processing request via Gateway'' st)"
    using a by (simp add: claude_fresh)
  show "nextHandle ?S = Suc (nextHandle st)"
    unfolding o by simp
  show sk: "sockets ?S (nextHandle st) =
          \<lparr>bKind = Correction, bOwner = w, bMsg = m, bReady = CONNECTING, bSent = [],
           bCloseCalls = []\<rparr>"
    unfolding o by (simp add: newSocket_def)
  show ws: "wsSent ?S = wsSent st"
    unfolding o by simp
  show "wsSent (fire (SockError (nextHandle st) e) ?S) w =
             wsSent st w @ [ClaudeResponse None None e (msg_transcript m)]"
    if r: "wsReadyState st w = OPEN"
  proof -
    have n: "nextHandle ?S = Suc (nextHandle st)" and rs: "wsReadyState ?S = wsReadyState st"
      unfolding o by simp_all
    have "fire (SockError (nextHandle st) e) ?S = correctionOnError (nextHandle st) e ?S"
      by (simp add: n sk)
    then show ?thesis
      using r by (simp add: correctionOnError_def sk Let_def wsSent_wsSend_open rs ws)
  qed
next
  show "wsSent (correctionOnError h e s) (bOwner (sockets s h)) =
          wsSent s (bOwner (sockets s h)) @
            [ClaudeResponse None None e (msg_transcript (bMsg (sockets s h)))]"
    if "bKind (sockets s h) = Correction \<and> wsReadyState s (bOwner (sockets s h)) = OPEN"
    using that by (simp add: correctionOnError_def Let_def wsSent_wsSend_open)
next
  assume a: "msg_type m = Some ''claude_process'' \<and> asrWs (heap st w) = Some g
        \<and> bReady (sockets st g) = OPEN"
  let ?S = "onMessage w (JSONValue m) st"
  have o: "?S = sockSend g (CorrectText (msg_transcript m)
                  (if truthy (msg_context m) then msg_context m
                   else Some (terminalContext (heap st w))))
             (asrLog ''[Claude] Processing request via Gateway'' st)"
    using a by (simp add: claude_reuse)
  show "nextHandle ?S = nextHandle st"
    unfolding o by simp
  show "bSent (sockets ?S g) =
            bSent (sockets st g) @
              [CorrectText (msg_transcript m)
                 (if truthy (msg_context m) then msg_context m
                  else Some (terminalContext (heap st w)))]"
    unfolding o using a by (simp add: sockSend_def)
  show ws: "wsSent ?S = wsSent st"
    unfolding o by simp
  show "wsSent (fire (SockError g e) ?S) w =
               wsSent st w @ [AsrResponse (AsrError (Some (orStr e ''Gateway connection error'')))]"
    if b: "bKind (sockets st g) = Gateway \<and> bOwner (sockets st g) = w \<and> g < nextHandle st
             \<and> wsReadyState st w = OPEN"
  proof -
    have k: "bKind (sockets ?S g) = Gateway" "bOwner (sockets ?S g) = w"
      "bReady (sockets ?S g) = OPEN" "nextHandle ?S = nextHandle st"
      "wsReadyState ?S = wsReadyState st"
      unfolding o using a b by (simp_all add: sockSend_def)
    have "fire (SockError g e) ?S = gatewayOnError g e ?S"
      using b by (simp add: k)
    then show ?thesis
      using b by (simp add: gatewayOnError_def k Let_def wsSent_wsSend_open ws)
  qed
qed

text \<open>
  The claim as stated fails for a request forwarded on the open ASR socket: after the
  error the client has received the ASR error message and no \<open>ClaudeResponse\<close>.
\<close>

theorem correction_fallback_counterexample:
  "gatewayOpen 0 ready
   \<and> bSent (sockets (run [WsMessage 0 (JSONValue claudeMsg), SockError 0 (Some ''boom'')] ready) 0)
       = [StartAsr ''zh'' ''qwen3-asr-flash-realtime'', CorrectText (Some ''helo wrld'') (Some [])]
   \<and> wsSent ready 0 = [AsrResponse AsrReady]
   \<and> wsSent (run [WsMessage 0 (JSONValue claudeMsg), SockError 0 (Some ''boom'')] ready) 0
       = [AsrResponse AsrReady, AsrResponse (AsrError (Some ''boom''))]
   \<and> ClaudeResponse None None (Some ''boom'') (Some ''helo wrld'')
       \<notin> set (wsSent
           (run [WsMessage 0 (JSONValue claudeMsg), SockError 0 (Some ''boom'')] ready) 0)"
  by code_simp

theorem correction_fallback_witness:
  "msg_type claudeMsg = Some ''claude_process'' \<and> \<not> gatewayOpen 0 connecting
   \<and> wsReadyState connecting 0 = OPEN
   \<and> bKind (sockets (onMessage 0 (JSONValue claudeMsg) connecting) 1) = Correction
   \<and> wsSent (fire (SockError 1 (Some ''boom'')) (onMessage 0 (JSONValue claudeMsg) connecting)) 0
       = [ClaudeResponse None None (Some ''boom'') (Some ''helo wrld'')]
   \<and> asrWs (heap ready 0) = Some 0 \<and> bReady (sockets ready 0) = OPEN
   \<and> bKind (sockets ready 0) = Gateway \<and> bOwner (sockets ready 0) = 0 \<and> 0 < nextHandle ready
   \<and> wsReadyState ready 0 = OPEN
   \<and> wsSent (fire (SockError 0 (Some ''boom'')) (onMessage 0 (JSONValue claudeMsg) ready)) 0
       = [AsrResponse AsrReady, AsrResponse (AsrError (Some ''boom''))]"
proof -
  have f: "msg_type claudeMsg = Some ''claude_process''" "\<not> gatewayOpen 0 connecting"
    "wsReadyState connecting 0 = OPEN" "nextHandle connecting = 1" "wsSent connecting 0 = []"
    "msg_transcript claudeMsg = Some ''helo wrld''"
    "asrWs (heap ready 0) = Some 0" "bReady (sockets ready 0) = OPEN"
    "bKind (sockets ready 0) = Gateway" "bOwner (sockets ready 0) = 0" "nextHandle ready = 1"
    "wsReadyState ready 0 = OPEN" "wsSent ready 0 = [AsrResponse AsrReady]"
    "orStr (Some ''boom'') ''Gateway connection error'' = ''boom''"
    by code_simp+
  show ?thesis
    using correction_fallback [of claudeMsg 0 connecting "Some ''boom''" connecting 0 0]
      correction_fallback [of claudeMsg 0 ready "Some ''boom''" connecting 0 0]
    by (simp add: f del: fire.simps)
qed

section \<open>A second start of transcription\<close>

text \<open>
  Claim C2, evaluated on the code. A client whose ASR session is ready sends
  \<^verbatim>\<open>asr_start\<close> again and the new socket opens: the client now has two open ASR
  sockets, \<^verbatim>\<open>close\<close> was never called on the first, the client was sent nothing, and
  its record refers to the second socket only. When the client then disconnects, only
  the second socket is closed; the first stays open.
\<close>

theorem second_start_leaks:
  "openGateways 0 ready = [0]
   \<and> openGateways 0 (run [WsMessage 0 (JSONValue (typedMsg ''asr_start'')), SockOpen 1] ready)
       = [0, 1]
   \<and> wsSent (run [WsMessage 0 (JSONValue (typedMsg ''asr_start'')), SockOpen 1] ready) 0
       = wsSent ready 0
   \<and> bCloseCalls (sockets
        (run [WsMessage 0 (JSONValue (typedMsg ''asr_start'')), SockOpen 1] ready) 0) = []
   \<and> asrWs (heap (run [WsMessage 0 (JSONValue (typedMsg ''asr_start'')), SockOpen 1] ready) 0)
       = Some 1
   \<and> openGateways 0
        (run [WsMessage 0 (JSONValue (typedMsg ''asr_start'')), SockOpen 1, WsClose 0] ready)
       = [0]
   \<and> \<not> crashed
        (run [WsMessage 0 (JSONValue (typedMsg ''asr_start'')), SockOpen 1, WsClose 0] ready)"
  by code_simp

section \<open>History replay\<close>

lemma liveExt_iff: "liveExt old new \<longleftrightarrow> (\<exists>ms. new = old @ ms \<and> filter isHistory ms = [])"
proof
  assume "liveExt old new"
  then have "new = old @ drop (length old) new \<and> filter isHistory (drop (length old) new) = []"
    unfolding liveExt_def by (metis append_take_drop_id)
  then show "\<exists>ms. new = old @ ms \<and> filter isHistory ms = []" by blast
next
  assume "\<exists>ms. new = old @ ms \<and> filter isHistory ms = []"
  then show "liveExt old new" by (auto simp: liveExt_def)
qed

lemma liveExt_refl [simp]: "liveExt xs xs"
  by (simp add: liveExt_def)

lemma liveExt_app:
  "liveExt xs ys \<Longrightarrow> filter isHistory zs = [] \<Longrightarrow> liveExt xs (ys @ zs)"
  unfolding liveExt_iff by auto

lemma liveExt_snoc [simp]:
  "liveExt xs ys \<Longrightarrow> \<not> isHistory m \<Longrightarrow> liveExt xs (ys @ [m])"
  by (simp add: liveExt_app)

lemma live_wsSend:
  "\<not> isHistory m \<Longrightarrow> liveExt xs (wsSent st w) \<Longrightarrow> liveExt xs (wsSent (wsSend c m st) w)"
  by (auto simp: wsSent_wsSend)

lemma live_sendAll:
  "\<not> isHistory m \<Longrightarrow> liveExt xs (wsSent st w) \<Longrightarrow> liveExt xs (wsSent (sendAll cs m st) w)"
  by (induction cs arbitrary: st) (simp_all add: live_wsSend)

lemma writeToPTY_fields [simp]:
  "connectedClients (writeToPTY d st) = connectedClients st"
  "nextWs (writeToPTY d st) = nextWs st"
  "wsReadyState (writeToPTY d st) = wsReadyState st"
  "wsSent (writeToPTY d st) = wsSent st"
  "crashed (writeToPTY d st) = crashed st"
  by (simp_all add: writeToPTY_def split: option.splits)

lemma uncaught_fields [simp]:
  "connectedClients (uncaught st) = connectedClients st"
  "nextWs (uncaught st) = nextWs st"
  "wsReadyState (uncaught st) = wsReadyState st"
  "wsSent (uncaught st) = wsSent st"
  by (simp_all add: uncaught_def)

lemma consoleError_fields [simp]:
  "connectedClients (consoleError s st) = connectedClients st"
  "nextWs (consoleError s st) = nextWs st"
  "wsReadyState (consoleError s st) = wsReadyState st"
  "wsSent (consoleError s st) = wsSent st"
  "crashed (consoleError s st) = crashed st"
  by (simp_all add: consoleError_def)

lemma setSockReady_fields [simp]:
  "connectedClients (setSockReady h r st) = connectedClients st"
  "heap (setSockReady h r st) = heap st"
  "nextWs (setSockReady h r st) = nextWs st"
  "wsReadyState (setSockReady h r st) = wsReadyState st"
  "wsSent (setSockReady h r st) = wsSent st"
  "crashed (setSockReady h r st) = crashed st"
  by (simp_all add: setSockReady_def)

text \<open>What each listener sends to a client, and that it allocates no client socket.\<close>

lemma live_dispatch:
  "liveExt xs (wsSent (dispatch c m st) w) = liveExt xs (wsSent st w)
   \<and> nextWs (dispatch c m st) = nextWs st"
proof -
  have 1: "wsSent (handleInput m s) = wsSent s \<and> nextWs (handleInput m s) = nextWs s" for s
    by (simp add: handleInput_def split: option.splits)
  have 2: "wsSent (handleAsrStart c m s) = wsSent s \<and> nextWs (handleAsrStart c m s) = nextWs s" for s
    by (simp add: handleAsrStart_def Let_def)
  have 3: "wsSent (handleAsrAudio c m s) = wsSent s \<and> nextWs (handleAsrAudio c m s) = nextWs s" for s
    by (simp add: handleAsrAudio_def Let_def split: option.splits)
  have 4: "wsSent (handleAsrCommit c m s) = wsSent s \<and> nextWs (handleAsrCommit c m s) = nextWs s" for s
    by (simp add: handleAsrCommit_def)
  have 5: "wsSent (handleAsrStop c m s) = wsSent s \<and> nextWs (handleAsrStop c m s) = nextWs s" for s
    by (simp add: handleAsrStop_def Let_def split: option.splits)
  have 6: "wsSent (handleClaudeProcess c m s) = wsSent s
           \<and> nextWs (handleClaudeProcess c m s) = nextWs s" for s
    by (simp add: handleClaudeProcess_def Let_def split: option.splits)
  have 7: "wsSent (handleResize c m s) = wsSent s \<and> nextWs (handleResize c m s) = nextWs s" for s
    by (simp add: handleResize_def split: option.splits)
  show ?thesis
    by (simp add: dispatch_def 1 2 3 4 5 6 7)
qed

lemma live_onMessage:
  "liveExt xs (wsSent st w) \<Longrightarrow> liveExt xs (wsSent (onMessage c d st) w)"
  "nextWs (onMessage c d st) = nextWs st"
  by (cases d; simp add: onMessage_def live_dispatch)+

lemma live_onClose:
  "liveExt xs (wsSent st w) \<Longrightarrow> liveExt xs (wsSent (onClose c st) w)"
  "nextWs (onClose c st) = nextWs st"
  by (simp_all add: onClose_def Let_def split: option.splits)

lemma live_ptyOnData:
  "liveExt xs (wsSent st w) \<Longrightarrow> liveExt xs (wsSent (ptyOnData d st) w)"
  by (simp add: ptyOnData_def Let_def webOnPTYData_def broadcast_def live_sendAll)

lemma live_ptyOnExit:
  "liveExt xs (wsSent st w) \<Longrightarrow> liveExt xs (wsSent (ptyOnExit code st) w)"
  "nextWs (ptyOnExit code st) = nextWs st"
  by (simp_all add: ptyOnExit_def Let_def webOnPTYExit_def broadcast_def live_sendAll
      sessionOnExit_def cleanup_def processExit_def stopWebServer_def killPTY_def
      split: option.splits exitListener.splits)

lemma live_stdoutResize:
  "wsSent (stdoutResize c r st) = wsSent st"
  "nextWs (stdoutResize c r st) = nextWs st"
  by (simp_all add: stdoutResize_def onLocalResize_def relay_applyMinSize_def Let_def
      split: option.splits)

lemma live_gatewayOnOpen:
  "wsSent (gatewayOnOpen h st) = wsSent st"
  "nextWs (gatewayOnOpen h st) = nextWs st"
  by (simp_all add: gatewayOnOpen_def Let_def split: option.splits)

lemma live_gatewayOnMessage:
  "liveExt xs (wsSent st w) \<Longrightarrow> liveExt xs (wsSent (gatewayOnMessage h gd st) w)"
  "nextWs (gatewayOnMessage h gd st) = nextWs st"
  by (simp_all add: gatewayOnMessage_def Let_def live_wsSend
      split: gatewayData.splits gatewayResponse.splits)

lemma live_gatewayOnError:
  "liveExt xs (wsSent st w) \<Longrightarrow> liveExt xs (wsSent (gatewayOnError h e st) w)"
  "nextWs (gatewayOnError h e st) = nextWs st"
  by (simp_all add: gatewayOnError_def Let_def live_wsSend)

lemma live_gatewayOnClose:
  "wsSent (gatewayOnClose h st) = wsSent st"
  "nextWs (gatewayOnClose h st) = nextWs st"
  by (simp_all add: gatewayOnClose_def Let_def)

lemma live_correctionOnOpen:
  "wsSent (correctionOnOpen h st) = wsSent st"
  "nextWs (correctionOnOpen h st) = nextWs st"
  by (simp_all add: correctionOnOpen_def Let_def)

lemma live_correctionOnMessage:
  "liveExt xs (wsSent st w) \<Longrightarrow> liveExt xs (wsSent (correctionOnMessage h gd st) w)"
  "nextWs (correctionOnMessage h gd st) = nextWs st"
  by (simp_all add: correctionOnMessage_def Let_def live_wsSend
      split: gatewayData.splits gatewayResponse.splits)

lemma live_correctionOnError:
  "liveExt xs (wsSent st w) \<Longrightarrow> liveExt xs (wsSent (correctionOnError h e st) w)"
  "nextWs (correctionOnError h e st) = nextWs st"
  by (simp_all add: correctionOnError_def Let_def live_wsSend)

lemma live_stopTimeout:
  "wsSent (stopTimeout c st) = wsSent st"
  "nextWs (stopTimeout c st) = nextWs st"
  by (simp_all add: stopTimeout_def Let_def split: option.splits)

lemma onConnection_other:
  "w \<noteq> nextWs st \<Longrightarrow> wsSent (onConnection st) w = wsSent st w"
  by (simp add: onConnection_def Let_def wsSent_wsSend)

lemma onConnection_nextWs: "nextWs (onConnection st) = Suc (nextWs st)"
  by (simp add: onConnection_def Let_def)

lemma live_fire:
  assumes "w < nextWs st" and "liveExt xs (wsSent st w)"
  shows "liveExt xs (wsSent (fire e st) w) \<and> w < nextWs (fire e st)"
proof (cases e)
  case Connection
  then show ?thesis using assms by (simp add: onConnection_other onConnection_nextWs)
next
  case (WsMessage c d)
  then show ?thesis using assms by (simp add: live_onMessage)
next
  case (WsClosing c)
  then show ?thesis using assms by simp
next
  case (WsClose c)
  then show ?thesis using assms by (simp add: live_onClose)
next
  case (PtyData d)
  then show ?thesis using assms by (simp add: live_ptyOnData)
next
  case (PtyExit code)
  then show ?thesis using assms by (simp add: live_ptyOnExit)
next
  case (StdoutResize c r)
  then show ?thesis using assms by (simp add: live_stdoutResize)
next
  case (SockOpen h)
  then show ?thesis using assms
    by (simp add: Let_def live_gatewayOnOpen live_correctionOnOpen split: sockKind.splits)
next
  case (SockMessage h gd)
  then show ?thesis using assms
    by (simp add: live_gatewayOnMessage live_correctionOnMessage split: sockKind.splits)
next
  case (SockError h err)
  then show ?thesis using assms
    by (simp add: live_gatewayOnError live_correctionOnError split: sockKind.splits)
next
  case (SockClosed h)
  then show ?thesis using assms
    by (simp add: Let_def live_gatewayOnClose split: sockKind.splits)
next
  case (TimerFire i)
  then show ?thesis using assms by (simp add: live_stopTimeout)
qed

lemma live_run:
  "w < nextWs st \<Longrightarrow> liveExt xs (wsSent st w) \<Longrightarrow> liveExt xs (wsSent (run es st) w)"
proof (induction es arbitrary: st)
  case Nil
  then show ?case by simp
next
  case (Cons e es)
  have "liveExt xs (wsSent (step e st) w) \<and> w < nextWs (step e st)"
    using Cons.prems live_fire [of w st xs e] by (simp add: step_def)
  then show ?case
    using Cons.IH by simp
qed


lemma onConnection_sent:
  "wsSent (onConnection st) (nextWs st) =
     (if outputBuffer st = [] then [] else [History (outputBuffer st)])"
  by (simp add: onConnection_def Let_def wsSent_wsSend)

lemma onConnection_fields:
  "connectedClients (onConnection st) = connectedClients st @ [nextWs st]"
  "wsReadyState (onConnection st) (nextWs st) = OPEN"
  "ptyProcess (onConnection st) = ptyProcess st"
  "dataCallback (onConnection st) = dataCallback st"
  "crashed (onConnection st) = crashed st"
  "outputBuffer (onConnection st) = outputBuffer st"
  by (simp_all add: onConnection_def Let_def)

lemma wsSent_sendAll_member:
  "distinct cs \<Longrightarrow> w \<in> set cs \<Longrightarrow> wsReadyState st w = OPEN \<Longrightarrow>
   wsSent (sendAll cs m st) w = wsSent st w @ [m]"
  by (simp add: wsSent_sendAll)

lemma run_PtyData_nextWs:
  "nextWs (run (map PtyData ds) st) = nextWs st"
  by (induction ds arbitrary: st) (simp_all add: step_def)

text \<open>
  Claim C3, as amended. The connection listener sends the new client the whole history
  buffer as one \<open>History\<close> message when the buffer is not empty, and nothing when it is
  empty. Whatever events follow, what the client has been sent starts with what the
  connection listener sent it, and nothing sent later is a \<open>History\<close> message: with a
  non-empty buffer the client gets exactly one replay, as the first message on its
  socket, before every live \<open>Output\<close>. The next PTY chunk reaches the new client as an
  \<open>Output\<close> message right after it. A client that connects after \<open>N\<close> chunks, with
  \<open>N\<close> between 1 and 5000, is sent all \<open>N\<close> chunks in its replay.
\<close>

theorem history_first:
  "wsSent (onConnection st) (nextWs st) =
     (if outputBuffer st = [] then [] else [History (outputBuffer st)])
   \<and> (\<exists>ms. wsSent (run es (onConnection st)) (nextWs st) =
             wsSent (onConnection st) (nextWs st) @ ms
           \<and> filter isHistory ms = [])
   \<and> (ptyProcess st \<noteq> None \<and> dataCallback st \<and> \<not> crashed st
        \<and> distinct (connectedClients st) \<and> nextWs st \<notin> set (connectedClients st) \<longrightarrow>
        wsSent (step (PtyData d) (onConnection st)) (nextWs st) =
          wsSent (onConnection st) (nextWs st) @ [Output d])
   \<and> (ds \<noteq> [] \<and> length ds \<le> 5000 \<longrightarrow>
        (\<exists>ms. wsSent (run (map PtyData ds @ Connection # es) started) 0 = History ds # ms
              \<and> filter isHistory ms = []))"
proof (intro conjI impI)
  show "wsSent (onConnection st) (nextWs st) =
     (if outputBuffer st = [] then [] else [History (outputBuffer st)])"
    by (rule onConnection_sent)
  have "liveExt (wsSent (onConnection st) (nextWs st))
          (wsSent (run es (onConnection st)) (nextWs st))"
    by (intro live_run) (simp_all add: onConnection_nextWs)
  then show "\<exists>ms. wsSent (run es (onConnection st)) (nextWs st) =
             wsSent (onConnection st) (nextWs st) @ ms
           \<and> filter isHistory ms = []"
    by (simp add: liveExt_iff)
next
  assume a: "ptyProcess st \<noteq> None \<and> dataCallback st \<and> \<not> crashed st
        \<and> distinct (connectedClients st) \<and> nextWs st \<notin> set (connectedClients st)"
  let ?S = "onConnection st"
  have "step (PtyData d) ?S = ptyOnData d ?S"
    using a by (simp add: step_def onConnection_fields)
  moreover have "wsSent (ptyOnData d ?S) (nextWs st) = wsSent ?S (nextWs st) @ [Output d]"
    using a
    by (simp add: ptyOnData_def webOnPTYData_def broadcast_def Let_def onConnection_fields
        wsSent_sendAll_member)
  ultimately show "wsSent (step (PtyData d) ?S) (nextWs st) = wsSent ?S (nextWs st) @ [Output d]"
    by simp
next
  assume a: "ds \<noteq> [] \<and> length ds \<le> 5000"
  let ?P = "run (map PtyData ds) started"
  have s: "ptyProcess started \<noteq> None" "\<not> crashed started" "dataCallback started"
    "outputBuffer started = []" "nextWs started = 0"
    by (simp_all add: started_def)
  have p: "outputBuffer ?P = outputBuffer started @ ds \<and> ptyProcess ?P \<noteq> None
           \<and> \<not> crashed ?P \<and> dataCallback ?P"
    using a s by (intro run_PtyData_small) simp_all
  have n: "nextWs ?P = 0"
    by (simp add: run_PtyData_nextWs s)
  have r: "run (map PtyData ds @ Connection # es) started = run es (onConnection ?P)"
    using p by (simp add: run_append step_def)
  have c: "wsSent (onConnection ?P) 0 = [History ds]"
    using onConnection_sent [of ?P] a p s n by simp
  have "liveExt (wsSent (onConnection ?P) 0) (wsSent (run es (onConnection ?P)) 0)"
    by (intro live_run) (simp_all add: onConnection_nextWs)
  then show "\<exists>ms. wsSent (run (map PtyData ds @ Connection # es) started) 0 = History ds # ms
              \<and> filter isHistory ms = []"
    by (simp add: liveExt_iff r c)
qed

text \<open>
  The claim as stated fails for a client that connects before any output: it is sent no
  \<open>History\<close> message, and the first message it receives is live output.
\<close>

theorem history_first_counterexample:
  "outputBuffer started = []
   \<and> wsSent (run [Connection] started) 0 = []
   \<and> wsSent (run [Connection, PtyData ''a''] started) 0 = [Output ''a'']
   \<and> filter isHistory (wsSent (run [Connection, PtyData ''a''] started) 0) = []"
  by code_simp

theorem history_first_witness:
  "ptyProcess started \<noteq> None \<and> dataCallback started \<and> \<not> crashed started
   \<and> distinct (connectedClients started) \<and> nextWs started \<notin> set (connectedClients started)
   \<and> wsSent (step (PtyData ''b'') (onConnection started)) (nextWs started) = [Output ''b'']
   \<and> [''a'', ''b''] \<noteq> [] \<and> length [''a'', ''b''] \<le> 5000
   \<and> (\<exists>ms. wsSent (run (map PtyData [''a'', ''b''] @ Connection # [PtyData ''c'', Connection])
               started) 0 = History [''a'', ''b''] # ms
            \<and> filter isHistory ms = [])
   \<and> wsSent (run (map PtyData [''a'', ''b''] @ Connection # [PtyData ''c'', Connection])
               started) 0 = [History [''a'', ''b''], Output ''c'']"
proof -
  have s: "ptyProcess started \<noteq> None" "dataCallback started" "\<not> crashed started"
    "connectedClients started = []" "outputBuffer started = []"
    by (simp_all add: started_def)
  have e: "wsSent (run [PtyData ''a'', PtyData ''b'', Connection, PtyData ''c'', Connection]
               started) 0 = [History [''a'', ''b''], Output ''c'']"
    by code_simp
  show ?thesis
    using history_first [of started "[PtyData ''c'', Connection]" "''b''" "[''a'', ''b'']"]
    by (simp add: s e del: run.simps)
qed

end
